theory Spec2Isabelle
  imports Complex_Main "HOL-Library.Multiset"
begin

section \<open>Python values and errors\<close>

text \<open>
  The simulator is \<^verbatim>\<open>FastQuantumKeyDistribution\<close> in \<^verbatim>\<open>app.py\<close>: the two static methods
  \<^verbatim>\<open>bb84_protocol\<close> and \<^verbatim>\<open>e91_protocol\<close>. The \<^verbatim>\<open>st.cache_data\<close> decorator and the
  dashboard in \<^verbatim>\<open>main\<close> are not part of the model; the functions below are the
  undecorated bodies.

  Exceptions are values: a call returns \<open>Inl\<close> of the exception it raises or \<open>Inr\<close> of its
  result.
\<close>

datatype py_error = ValueError | KeyError | IndexError

text \<open>Sequencing: an exception raised by the first step ends the call.\<close>

definition and_then :: "py_error + 'a \<Rightarrow> ('a \<Rightarrow> py_error + 'b) \<Rightarrow> py_error + 'b" where
  "and_then m f = (case m of Inl e \<Rightarrow> Inl e | Inr x \<Rightarrow> f x)"

text \<open>
  A NumPy \<^verbatim>\<open>float64\<close> that is a mean of 0/1 values: either the quotient (kept as an exact
  rational) or \<^verbatim>\<open>nan\<close>, which is what \<^verbatim>\<open>np.mean\<close> gives on an empty array. The double
  is the quotient \<open>k/n\<close> correctly rounded; its comparisons with the literals 0.15 and 0.7
  have the outcome of the exact comparisons with \<open>15/100\<close> and \<open>7/10\<close> for every array of
  fewer than \<open>10\<^sup>1\<^sup>5\<close> elements, since \<open>k/n\<close> is then either equal to the literal's decimal
  value or farther from it than the rounding error.
\<close>

datatype pyfloat = NaN | Fin rat

text \<open>Comparisons with a literal; every comparison with \<^verbatim>\<open>nan\<close> is false.\<close>

fun pf_gt :: "pyfloat \<Rightarrow> rat \<Rightarrow> bool" where
  "pf_gt NaN c = False"
| "pf_gt (Fin x) c = (x > c)"

fun pf_lt :: "pyfloat \<Rightarrow> rat \<Rightarrow> bool" where
  "pf_lt NaN c = False"
| "pf_lt (Fin x) c = (x < c)"

fun pf_eq :: "pyfloat \<Rightarrow> rat \<Rightarrow> bool" where
  "pf_eq NaN c = False"
| "pf_eq (Fin x) c = (x = c)"

text \<open>Python's \<^verbatim>\<open>0 <= x <= 1\<close>.\<close>

fun pf_in_unit :: "pyfloat \<Rightarrow> bool" where
  "pf_in_unit NaN = False"
| "pf_in_unit (Fin x) = (0 \<le> x \<and> x \<le> 1)"

text \<open>The values stored in the dictionaries the two methods return.\<close>

datatype pyval =
    IntList "nat list"
  | StrList "string list"
  | BoolList "bool list"
  | Float pyfloat
  | Bool bool

type_synonym pydict = "(string \<times> pyval) list"

section \<open>The random source\<close>

text \<open>
  \<^verbatim>\<open>np.random\<close> is a library, not code of this repository. Its global generator is
  modelled as a stream of raw entropy with a cursor; every draw reads the cell under the
  cursor and advances it. The functions below give each library call its documented
  range: \<^verbatim>\<open>randint(2)\<close> is 0 or 1, \<^verbatim>\<open>random()\<close> is a multiple of \<open>2\<^sup>-\<^sup>5\<^sup>3\<close> in \<open>[0, 1)\<close>,
  \<^verbatim>\<open>choice(n, k, replace=False)\<close> is the first \<open>k\<close> entries of a shuffled \<open>[0..<n]\<close>. The
  entropy stream is arbitrary, so the theorems hold for every outcome of the draws.
\<close>

record rng =
  entropy :: "nat \<Rightarrow> nat"
  cursor :: nat

definition next_raw :: "rng \<Rightarrow> nat \<times> rng" where
  "next_raw g = (entropy g (cursor g), g\<lparr>cursor := Suc (cursor g)\<rparr>)"

text \<open>
  \<^verbatim>\<open>np.random.seed(s)\<close>: the state after seeding is a function of the seed alone. That
  function (the initialisation of the Mersenne Twister) is the parameter \<open>mt\<close>. Seeds
  outside \<open>[0, 2\<^sup>3\<^sup>2)\<close> raise \<^verbatim>\<open>ValueError\<close>.
\<close>

definition np_random_seed :: "(int \<Rightarrow> rng) \<Rightarrow> int \<Rightarrow> py_error + rng" where
  "np_random_seed mt s = (if 0 \<le> s \<and> s < 2 ^ 32 then Inr (mt s) else Inl ValueError)"

text \<open>\<^verbatim>\<open>np.random.randint(2)\<close>\<close>

definition randint2 :: "rng \<Rightarrow> nat \<times> rng" where
  "randint2 g = (case next_raw g of (r, g') \<Rightarrow> (r mod 2, g'))"

text \<open>\<^verbatim>\<open>np.random.randint(2, size=n)\<close>: \<open>n\<close> draws in order; a negative size raises.\<close>

fun randint2_fill :: "nat \<Rightarrow> rng \<Rightarrow> nat list \<times> rng" where
  "randint2_fill 0 g = ([], g)"
| "randint2_fill (Suc n) g =
     (case randint2 g of (b, g1) \<Rightarrow>
        (case randint2_fill n g1 of (bs, g2) \<Rightarrow> (b # bs, g2)))"

definition randint2_size :: "int \<Rightarrow> rng \<Rightarrow> py_error + (nat list \<times> rng)" where
  "randint2_size n g = (if n < 0 then Inl ValueError else Inr (randint2_fill (nat n) g))"

text \<open>\<^verbatim>\<open>np.random.random()\<close>: 53 random bits scaled into \<open>[0, 1)\<close>.\<close>

definition random_sample :: "rng \<Rightarrow> rat \<times> rng" where
  "random_sample g =
     (case next_raw g of (r, g') \<Rightarrow> (of_nat (r mod 2 ^ 53) / 2 ^ 53, g'))"

text \<open>
  \<^verbatim>\<open>np.random.permutation(n)\<close>: \<open>[0..<n]\<close> shuffled in place from the last index down,
  swapping position \<open>i\<close> with a position drawn from \<open>[0, i]\<close>.
\<close>

fun shuffle :: "nat \<Rightarrow> nat list \<Rightarrow> rng \<Rightarrow> nat list \<times> rng" where
  "shuffle 0 xs g = (xs, g)"
| "shuffle (Suc i) xs g =
     (case next_raw g of (r, g') \<Rightarrow>
        (let j = r mod Suc (Suc i)
         in shuffle i (xs[Suc i := xs ! j, j := xs ! Suc i]) g'))"

definition permutation :: "nat \<Rightarrow> rng \<Rightarrow> nat list \<times> rng" where
  "permutation n g = shuffle (n - 1) [0..<n] g"

text \<open>
  \<^verbatim>\<open>np.random.choice(a, size, replace=False)\<close> with an integer population: an empty
  population is accepted only when no sample is taken, and the sample cannot be larger
  than the population.
\<close>

definition choice :: "int \<Rightarrow> int \<Rightarrow> rng \<Rightarrow> py_error + (nat list \<times> rng)" where
  "choice a k g =
     (if a \<le> 0 \<and> k \<noteq> 0 then Inl ValueError
      else if k > a then Inl ValueError
      else if k < 0 then Inl ValueError
      else (case permutation (nat a) g of (p, g') \<Rightarrow> Inr (take (nat k) p, g')))"

text \<open>\<^verbatim>\<open>np.mean\<close> of an array of 0/1 values (booleans count as 0 and 1).\<close>

definition np_mean :: "nat list \<Rightarrow> pyfloat" where
  "np_mean xs = (if xs = [] then NaN else Fin (of_nat (sum_list xs) / of_nat (length xs)))"

text \<open>Indexing an array with an array of indices, \<^verbatim>\<open>xs[idx]\<close>.\<close>

definition take_indices :: "'a list \<Rightarrow> nat list \<Rightarrow> py_error + 'a list" where
  "take_indices xs idx =
     (if \<forall>i \<in> set idx. i < length xs then Inr (map (\<lambda>i. xs ! i) idx) else Inl IndexError)"

text \<open>
  The first statement of both methods: \<^verbatim>\<open>if _seed is not None: np.random.seed(_seed)\<close>.
  \<open>g0\<close> is the state of the global generator when the method is called.
\<close>

definition seed_generator :: "(int \<Rightarrow> rng) \<Rightarrow> int option \<Rightarrow> rng \<Rightarrow> py_error + rng" where
  "seed_generator mt seed g0 =
     (case seed of None \<Rightarrow> Inr g0 | Some s \<Rightarrow> np_random_seed mt s)"

text \<open>The seeds with which the first statement does not raise.\<close>

fun seed_accepted :: "int option \<Rightarrow> bool" where
  "seed_accepted None = True"
| "seed_accepted (Some s) = (0 \<le> s \<and> s < 2 ^ 32)"

section \<open>E91\<close>

text \<open>\<^verbatim>\<open>e91_protocol(n_qubits, _seed)\<close>, lines 83-106. \<open>g0\<close> is the state of the global
  generator when the method is called.\<close>

definition e91_protocol :: "(int \<Rightarrow> rng) \<Rightarrow> int \<Rightarrow> int option \<Rightarrow> rng \<Rightarrow> py_error + pydict" where
  "e91_protocol mt n_qubits seed g0 =
     and_then (seed_generator mt seed g0) (\<lambda>g.
     and_then (randint2_size n_qubits g) (\<lambda>(alice_bases, g1).
     and_then (randint2_size n_qubits g1) (\<lambda>(bob_bases, g2).
       (let correlated_bits = map2 (\<lambda>a b. if a = b then 1 else 0) alice_bases bob_bases;
            correlation_rate = np_mean correlated_bits;
            eavesdropping_detected = pf_lt correlation_rate (7 / 10)
        in Inr [(''alice_bases'', IntList alice_bases),
                (''bob_bases'', IntList bob_bases),
                (''correlation_rate'', Float correlation_rate),
                (''eavesdropped'', Bool eavesdropping_detected)]))))"

section \<open>BB84\<close>

text \<open>
  The four polarization symbols are the one-character strings of lines 22-25, written as
  their UTF-8 bytes (U+2191, U+2197, U+2192, U+2198).
\<close>

definition arrow_up :: string where
  "arrow_up = [CHR 0xE2, CHR 0x86, CHR 0x91]"

definition arrow_up_right :: string where
  "arrow_up_right = [CHR 0xE2, CHR 0x86, CHR 0x97]"

definition arrow_right :: string where
  "arrow_right = [CHR 0xE2, CHR 0x86, CHR 0x92]"

definition arrow_down_right :: string where
  "arrow_down_right = [CHR 0xE2, CHR 0x86, CHR 0x98]"

text \<open>The dictionary \<^verbatim>\<open>polarization_symbols\<close>, keyed by \<open>(bit, basis)\<close>.\<close>

definition polarization_symbols :: "nat \<times> nat \<rightharpoonup> string" where
  "polarization_symbols =
     map_of [((0, 0), arrow_up),
             ((0, 1), arrow_up_right),
             ((1, 0), arrow_right),
             ((1, 1), arrow_down_right)]"

text \<open>A subscript \<^verbatim>\<open>d[k]\<close> raises \<^verbatim>\<open>KeyError\<close> on a missing key.\<close>

definition dict_get :: "('k \<rightharpoonup> 'v) \<Rightarrow> 'k \<Rightarrow> py_error + 'v" where
  "dict_get d k = (case d k of None \<Rightarrow> Inl KeyError | Some v \<Rightarrow> Inr v)"

text \<open>Line 29: the comprehension over \<^verbatim>\<open>zip(alice_bits, alice_bases)\<close>.\<close>

fun derive_polarizations :: "(nat \<times> nat) list \<Rightarrow> py_error + string list" where
  "derive_polarizations [] = Inr []"
| "derive_polarizations (p # ps) =
     and_then (dict_get polarization_symbols p) (\<lambda>s.
     and_then (derive_polarizations ps) (\<lambda>ss. Inr (s # ss)))"

text \<open>Lines 32-36; \<open>None\<close> is Python's \<^verbatim>\<open>None\<close>.\<close>

definition fast_eavesdropping_simulation :: "nat \<Rightarrow> nat \<Rightarrow> rng \<Rightarrow> nat option \<times> rng" where
  "fast_eavesdropping_simulation alice_bit alice_basis g =
     (let eve_intercept_prob = 2 / 10
      in case random_sample g of (u, g1) \<Rightarrow>
           if u < eve_intercept_prob
           then (case randint2 g1 of (e, g2) \<Rightarrow> (Some e, g2))
           else (None, g1))"

text \<open>The five lists of lines 38-42 and the global generator, as the loop updates them.\<close>

record loop_state =
  bob_results :: "nat list"
  bob_polarizations :: "string list"
  eve_interventions :: "bool list"
  matched_bases :: "bool list"
  shared_key :: "nat list"
  gen :: rng

definition loop_init :: "rng \<Rightarrow> loop_state" where
  "loop_init g =
     \<lparr>bob_results = [], bob_polarizations = [], eve_interventions = [],
      matched_bases = [], shared_key = [], gen = g\<rparr>"

type_synonym qubit = "nat \<times> nat \<times> nat \<times> string"

text \<open>One iteration, lines 45-62 (\<open>a_bit\<close> is the loop variable \<^verbatim>\<open>bit\<close>).\<close>

definition loop_body :: "qubit \<Rightarrow> loop_state \<Rightarrow> loop_state" where
  "loop_body q s =
     (case q of (a_bit, alice_basis, bob_basis, polarization) \<Rightarrow>
      (case fast_eavesdropping_simulation a_bit alice_basis (gen s) of (eve_intervention, g1) \<Rightarrow>
        (let s1 = s\<lparr>eve_interventions := eve_interventions s @ [eve_intervention \<noteq> None],
                     gen := g1\<rparr>
         in if alice_basis = bob_basis then
              (let bob_result = (case eve_intervention of None \<Rightarrow> a_bit | Some e \<Rightarrow> e)
               in s1\<lparr>matched_bases := matched_bases s1 @ [True],
                      bob_results := bob_results s1 @ [bob_result],
                      shared_key := shared_key s1 @ [bob_result],
                      bob_polarizations := bob_polarizations s1 @ [polarization]\<rparr>)
            else
              (case randint2 g1 of (r, g2) \<Rightarrow>
                 s1\<lparr>matched_bases := matched_bases s1 @ [False],
                     bob_results := bob_results s1 @ [r],
                     bob_polarizations :=
                       bob_polarizations s1 @ [if bob_basis = 0 then ''?'' else ''?''],
                     gen := g2\<rparr>))))"

text \<open>The \<^verbatim>\<open>for\<close> loop of line 44 over the zipped sequences.\<close>

fun bb84_loop :: "qubit list \<Rightarrow> loop_state \<Rightarrow> loop_state" where
  "bb84_loop [] s = s"
| "bb84_loop (q # qs) s = bb84_loop qs (loop_body q s)"

text \<open>
  History of the loop: the value of the local \<^verbatim>\<open>eve_intervention\<close> (line 45) in each
  iteration. The code itself keeps only \<^verbatim>\<open>eve_intervention is not None\<close>.
\<close>

fun eve_guesses :: "qubit list \<Rightarrow> loop_state \<Rightarrow> nat option list" where
  "eve_guesses [] s = []"
| "eve_guesses (q # qs) s =
     (case q of (a_bit, alice_basis, bob_basis, polarization) \<Rightarrow>
        fst (fast_eavesdropping_simulation a_bit alice_basis (gen s)))
     # eve_guesses qs (loop_body q s)"

definition zip4 :: "nat list \<Rightarrow> nat list \<Rightarrow> nat list \<Rightarrow> string list \<Rightarrow> qubit list" where
  "zip4 ws xs ys zs = zip ws (zip xs (zip ys zs))"

text \<open>
  The local variables of \<^verbatim>\<open>bb84_protocol\<close> when line 68 is reached, with the history
  \<open>loc_eve_guesses\<close> of \<^verbatim>\<open>eve_intervention\<close> beside them.
\<close>

record bb84_locals =
  loc_alice_bits :: "nat list"
  loc_alice_bases :: "nat list"
  loc_bob_bases :: "nat list"
  loc_alice_polarizations :: "string list"
  loc_loop :: loop_state
  loc_eve_guesses :: "nat option list"
  loc_comparison_subset :: "nat list"
  loc_error_rate :: pyfloat

text \<open>Lines 12-66.\<close>

definition bb84_simulate ::
  "(int \<Rightarrow> rng) \<Rightarrow> int \<Rightarrow> int option \<Rightarrow> rng \<Rightarrow> py_error + bb84_locals" where
  "bb84_simulate mt n_qubits seed g0 =
     and_then (seed_generator mt seed g0) (\<lambda>g.
     and_then (randint2_size n_qubits g) (\<lambda>(alice_bits, g1).
     and_then (randint2_size n_qubits g1) (\<lambda>(alice_bases, g2).
     and_then (randint2_size n_qubits g2) (\<lambda>(bob_bases, g3).
     and_then (derive_polarizations (zip alice_bits alice_bases)) (\<lambda>alice_polarizations.
       (let qubits = zip4 alice_bits alice_bases bob_bases alice_polarizations;
            s = bb84_loop qubits (loop_init g3)
        in and_then (choice n_qubits (n_qubits div 2) (gen s)) (\<lambda>(comparison_subset, g4).
           and_then (take_indices alice_bits comparison_subset) (\<lambda>alice_sample.
           and_then (take_indices (bob_results s) comparison_subset) (\<lambda>bob_sample.
             Inr \<lparr>loc_alice_bits = alice_bits,
                  loc_alice_bases = alice_bases,
                  loc_bob_bases = bob_bases,
                  loc_alice_polarizations = alice_polarizations,
                  loc_loop = s\<lparr>gen := g4\<rparr>,
                  loc_eve_guesses = eve_guesses qubits (loop_init g3),
                  loc_comparison_subset = comparison_subset,
                  loc_error_rate =
                    np_mean (map2 (\<lambda>a b. if a \<noteq> b then 1 else 0)
                               alice_sample bob_sample)\<rparr>)))))))))"

text \<open>The dictionary of lines 68-79.\<close>

definition basis_names :: "nat list \<Rightarrow> string list" where
  "basis_names bs = map (\<lambda>b. if b = 0 then ''+'' else ''X'') bs"

definition bb84_return :: "bb84_locals \<Rightarrow> pydict" where
  "bb84_return l =
     [(''alice_bits'', IntList (loc_alice_bits l)),
      (''bob_bits'', IntList (bob_results (loc_loop l))),
      (''alice_bases'', StrList (basis_names (loc_alice_bases l))),
      (''bob_bases'', StrList (basis_names (loc_bob_bases l))),
      (''alice_polarizations'', StrList (loc_alice_polarizations l)),
      (''bob_polarizations'', StrList (bob_polarizations (loc_loop l))),
      (''matched_bases'', BoolList (matched_bases (loc_loop l))),
      (''shared_key'', IntList (shared_key (loc_loop l))),
      (''error_rate'', Float (loc_error_rate l)),
      (''eavesdropping_detected'', Bool (pf_gt (loc_error_rate l) (15 / 100)))]"

definition bb84_protocol ::
  "(int \<Rightarrow> rng) \<Rightarrow> int \<Rightarrow> int option \<Rightarrow> rng \<Rightarrow> py_error + pydict" where
  "bb84_protocol mt n_qubits seed g0 =
     and_then (bb84_simulate mt n_qubits seed g0) (\<lambda>l. Inr (bb84_return l))"

text \<open>Reading a key of a returned dictionary.\<close>

definition field :: "pydict \<Rightarrow> string \<Rightarrow> pyval option" where
  "field d k = map_of d k"

definition result_field :: "py_error + pydict \<Rightarrow> string \<Rightarrow> pyval option" where
  "result_field r k = (case r of Inl e \<Rightarrow> None | Inr d \<Rightarrow> field d k)"

section \<open>Fixtures\<close>

text \<open>
  A concrete seeding function and a concrete generator state, for evaluation. A cell
  holds a 32-bit hash of its index in its high bits, so that \<open>random_sample\<close> spreads over
  \<open>[0, 1)\<close>, and the hash shifted right in its low bits, so that \<open>randint2\<close> varies.
\<close>

definition scramble :: "nat \<Rightarrow> nat" where
  "scramble x = (let h = (1103515245 * x + 12345) mod 4294967296 in h * 2097152 + h div 65536)"

definition example_mt :: "int \<Rightarrow> rng" where
  "example_mt s = \<lparr>entropy = (\<lambda>i. scramble (7919 * nat s + i)), cursor = 0\<rparr>"

definition example_g0 :: rng where
  "example_g0 = \<lparr>entropy = (\<lambda>i. scramble (i + 1000003)), cursor = 0\<rparr>"

text \<open>Generator states given by their first cells.\<close>

definition constant_source :: "nat \<Rightarrow> rng" where
  "constant_source c = \<lparr>entropy = (\<lambda>i. c), cursor = 0\<rparr>"

definition tape_source :: "nat list \<Rightarrow> rng" where
  "tape_source xs = \<lparr>entropy = (\<lambda>i. if i < length xs then xs ! i else 0), cursor = 0\<rparr>"

text \<open>
  The cells a run of four qubits reads: Alice's bits, Alice's bases, Bob's bases, the
  draws of the four iterations, and the three draws of the shuffle.
\<close>

definition example_tape :: "nat list" where
  "example_tape =
     [0, 1, 1, 0,  0, 1, 0, 1,  0, 0, 0, 1,  0, 1,  2 ^ 52, 1,  2 ^ 52,  0, 0,  3, 2, 0]"

definition example_result :: pydict where
  "example_result =
     [(''alice_bits'', IntList [0, 1, 1, 0]),
      (''bob_bits'', IntList [1, 1, 1, 0]),
      (''alice_bases'', StrList [''+'', ''X'', ''+'', ''X'']),
      (''bob_bases'', StrList [''+'', ''+'', ''+'', ''X'']),
      (''alice_polarizations'',
         StrList [arrow_up, arrow_down_right, arrow_right, arrow_up_right]),
      (''bob_polarizations'', StrList [arrow_up, ''?'', arrow_right, arrow_up_right]),
      (''matched_bases'', BoolList [True, False, True, True]),
      (''shared_key'', IntList [1, 1, 0]),
      (''error_rate'', Float (Fin (1 / 2))),
      (''eavesdropping_detected'', Bool True)]"

definition example_result_e91 :: pydict where
  "example_result_e91 =
     [(''alice_bases'', IntList [0, 1, 1, 0]),
      (''bob_bases'', IntList [0, 1, 0, 1]),
      (''correlation_rate'', Float (Fin (1 / 2))),
      (''eavesdropped'', Bool True)]"

section \<open>Properties of the random source\<close>

lemma randint2_range: "fst (randint2 g) < 2"
  by (simp add: randint2_def next_raw_def)

lemma randint2_fill_Suc:
  "randint2_fill (Suc n) g =
     (fst (randint2 g) # fst (randint2_fill n (snd (randint2 g))),
      snd (randint2_fill n (snd (randint2 g))))"
  by (simp add: case_prod_beta)

lemma randint2_fill_length: "length (fst (randint2_fill n g)) = n"
  by (induction n arbitrary: g) (simp_all add: case_prod_beta)

lemma randint2_fill_range: "b \<in> set (fst (randint2_fill n g)) \<Longrightarrow> b < 2"
proof (induction n arbitrary: g)
  case 0
  then show ?case by simp
next
  case (Suc n)
  from Suc.prems have "b = fst (randint2 g) \<or> b \<in> set (fst (randint2_fill n (snd (randint2 g))))"
    by (simp add: case_prod_beta)
  then show ?case using randint2_range [of g] Suc.IH by blast
qed

lemma randint2_fill_cells:
  "randint2_fill n g =
     (map (\<lambda>i. entropy g (cursor g + i) mod 2) [0..<n], g\<lparr>cursor := cursor g + n\<rparr>)"
proof (induction n arbitrary: g)
  case 0
  show ?case by simp
next
  case (Suc n)
  have "[0..<Suc n] = 0 # map Suc [0..<n]"
    by (simp add: upt_rec [of 0 "Suc n"] map_Suc_upt del: upt_Suc)
  then show ?case
    by (simp add: Suc.IH randint2_def next_raw_def del: upt_Suc)
qed

lemma shuffle_mset: "i < length xs \<Longrightarrow> mset (fst (shuffle i xs g)) = mset xs"
proof (induction i arbitrary: xs g)
  case 0
  then show ?case by simp
next
  case (Suc i)
  obtain r g' where n: "next_raw g = (r, g')" by (cases "next_raw g")
  let ?j = "r mod Suc (Suc i)"
  let ?ys = "xs[Suc i := xs ! ?j, ?j := xs ! Suc i]"
  have "?j < Suc (Suc i)" by (rule mod_less_divisor) simp
  with Suc.prems have j: "?j < length xs" by linarith
  have "mset ?ys = mset xs" using Suc.prems j by (simp add: mset_swap)
  moreover have "i < length ?ys" using Suc.prems by simp
  ultimately show ?case using Suc.IH [of ?ys g'] n by (simp add: Let_def)
qed

lemma permutation_mset: "mset (fst (permutation n g)) = mset [0..<n]"
proof (cases n)
  case 0
  then show ?thesis by (simp add: permutation_def)
next
  case (Suc m)
  then show ?thesis unfolding permutation_def by (simp add: shuffle_mset del: mset_upt)
qed

lemma permutation_distinct: "distinct (fst (permutation n g))"
  using permutation_mset [of n g] by (metis distinct_upt mset_eq_imp_distinct_iff)

lemma permutation_set: "set (fst (permutation n g)) = {0..<n}"
  using permutation_mset [of n g] by (metis mset_eq_setD set_upt)

lemma permutation_length: "length (fst (permutation n g)) = n"
  using permutation_mset [of n g] by (metis length_upt mset_eq_length minus_nat.diff_0)

lemma choice_ok:
  assumes "0 \<le> k" "k \<le> a"
  shows "\<exists>p g'. choice a k g = Inr (p, g') \<and> distinct p \<and> length p = nat k
            \<and> set p \<subseteq> {0..<nat a}"
proof -
  obtain p g' where pg: "permutation (nat a) g = (p, g')" by (cases "permutation (nat a) g")
  have d: "distinct p" and s: "set p = {0..<nat a}" and l: "length p = nat a"
    using permutation_distinct [of "nat a" g] permutation_set [of "nat a" g]
      permutation_length [of "nat a" g] pg by simp_all
  have c: "choice a k g = Inr (take (nat k) p, g')"
    using assms pg by (auto simp: choice_def)
  have "set (take (nat k) p) \<subseteq> {0..<nat a}" using s set_take_subset [of "nat k" p] by blast
  moreover have "length (take (nat k) p) = nat k" using l assms by simp
  ultimately show ?thesis using c d by auto
qed

text \<open>
  The test \<^verbatim>\<open>np.random.random() < eve_intercept_prob\<close> compares a double \<open>k / 2\<^sup>5\<^sup>3\<close> with
  the double nearest to 0.2, which is \<open>3602879701896397 / 2\<^sup>5\<^sup>4\<close>. It has the same outcome
  as the comparison with the rational \<open>2/10\<close> used in \<open>fast_eavesdropping_simulation\<close>.
\<close>

lemma intercept_threshold_exact:
  "((of_nat k :: rat) / 2 ^ 53 < 2 / 10) = ((of_nat k :: rat) / 2 ^ 53 < 3602879701896397 / 2 ^ 54)"
proof -
  have a: "((of_nat k :: rat) / 2 ^ 53 < 2 / 10) = (k \<le> 1801439850948198)"
  proof -
    have "((of_nat k :: rat) / 2 ^ 53 < 2 / 10) = ((of_nat (5 * k) :: rat) < of_nat 9007199254740992)"
      by (simp add: field_simps)
    also have "\<dots> = (5 * k < 9007199254740992)" by (simp only: of_nat_less_iff)
    also have "\<dots> = (k \<le> 1801439850948198)" by arith
    finally show ?thesis .
  qed
  have b: "((of_nat k :: rat) / 2 ^ 53 < 3602879701896397 / 2 ^ 54) = (k \<le> 1801439850948198)"
  proof -
    have "((of_nat k :: rat) / 2 ^ 53 < 3602879701896397 / 2 ^ 54)
          = ((of_nat (2 * k) :: rat) < of_nat 3602879701896397)"
      by (simp add: field_simps)
    also have "\<dots> = (2 * k < 3602879701896397)" by (simp only: of_nat_less_iff)
    also have "\<dots> = (k \<le> 1801439850948198)" by arith
    finally show ?thesis .
  qed
  show ?thesis by (simp only: a b)
qed

text \<open>A sample is a prefix of a permutation of the whole population.\<close>

lemma choice_prefix:
  assumes "choice a k g = Inr (p, g')"
  shows "\<exists>perm. mset perm = mset [0..<nat a] \<and> p = take (nat k) perm"
proof -
  from assms have "p = take (nat k) (fst (permutation (nat a) g))"
    by (auto simp: choice_def case_prod_beta split: if_splits)
  then show ?thesis using permutation_mset [of "nat a" g] by blast
qed

section \<open>Properties of the BB84 loop\<close>

lemma eve_guess_range:
  "fst (fast_eavesdropping_simulation b a g) = Some e \<Longrightarrow> e < 2"
  using randint2_range [of "snd (random_sample g)"]
  by (auto simp: fast_eavesdropping_simulation_def Let_def case_prod_beta split: if_splits)

lemma loop_body_matched:
  "matched_bases (loop_body (b, a, bb, p) s) = matched_bases s @ [a = bb]"
  by (simp add: loop_body_def Let_def case_prod_beta)

lemma loop_body_polarizations:
  "bob_polarizations (loop_body (b, a, bb, p) s) =
     bob_polarizations s @ [if a = bb then p else ''?'']"
  by (simp add: loop_body_def Let_def case_prod_beta)

lemma loop_body_eve:
  "eve_interventions (loop_body (b, a, bb, p) s) =
     eve_interventions s @ [fst (fast_eavesdropping_simulation b a (gen s)) \<noteq> None]"
  by (simp add: loop_body_def Let_def case_prod_beta)

lemma loop_body_bob:
  "\<exists>r. bob_results (loop_body (b, a, bb, p) s) = bob_results s @ [r]
      \<and> shared_key (loop_body (b, a, bb, p) s) = shared_key s @ (if a = bb then [r] else [])
      \<and> (a = bb \<longrightarrow> r = (case fst (fast_eavesdropping_simulation b a (gen s)) of
                              None \<Rightarrow> b | Some e \<Rightarrow> e))
      \<and> (b < 2 \<longrightarrow> r < 2)"
proof (cases "a = bb")
  case True
  let ?e = "fst (fast_eavesdropping_simulation b a (gen s))"
  let ?r = "case ?e of None \<Rightarrow> b | Some e \<Rightarrow> e"
  have "b < 2 \<longrightarrow> ?r < 2" using eve_guess_range [of b a "gen s"] by (cases ?e) auto
  moreover have "bob_results (loop_body (b, a, bb, p) s) = bob_results s @ [?r]"
    using True by (simp add: loop_body_def Let_def case_prod_beta split: option.split)
  moreover have "shared_key (loop_body (b, a, bb, p) s) = shared_key s @ [?r]"
    using True by (simp add: loop_body_def Let_def case_prod_beta split: option.split)
  ultimately show ?thesis using True by auto
next
  case False
  let ?r = "fst (randint2 (snd (fast_eavesdropping_simulation b a (gen s))))"
  have "?r < 2" by (rule randint2_range)
  moreover have "bob_results (loop_body (b, a, bb, p) s) = bob_results s @ [?r]"
    using False by (simp add: loop_body_def Let_def case_prod_beta)
  moreover have "shared_key (loop_body (b, a, bb, p) s) = shared_key s"
    using False by (simp add: loop_body_def Let_def case_prod_beta)
  ultimately show ?thesis using False by auto
qed

lemma loop_matched:
  "matched_bases (bb84_loop qs s) =
     matched_bases s @ map (\<lambda>(b, a, bb, p). a = bb) qs"
  by (induction qs arbitrary: s) (auto simp: loop_body_matched)

lemma loop_polarizations:
  "bob_polarizations (bb84_loop qs s) =
     bob_polarizations s @ map (\<lambda>(b, a, bb, p). if a = bb then p else ''?'') qs"
  by (induction qs arbitrary: s) (auto simp: loop_body_polarizations)

lemma loop_eve:
  "eve_interventions (bb84_loop qs s) =
     eve_interventions s @ map (\<lambda>e. e \<noteq> None) (eve_guesses qs s)"
  by (induction qs arbitrary: s) (auto simp: loop_body_eve)

lemma eve_guesses_length: "length (eve_guesses qs s) = length qs"
  by (induction qs arbitrary: s) auto

text \<open>What the loop appends to \<open>bob_results\<close> and to \<open>shared_key\<close>.\<close>

lemma loop_bob:
  "\<exists>rs. bob_results (bb84_loop qs s) = bob_results s @ rs
       \<and> length rs = length qs
       \<and> shared_key (bb84_loop qs s) =
           shared_key s @ map fst (filter snd (zip rs (map (\<lambda>(b, a, bb, p). a = bb) qs)))
       \<and> (\<forall>i < length qs. (case qs ! i of (b, a, bb, p) \<Rightarrow>
             (a = bb \<longrightarrow> rs ! i = (case eve_guesses qs s ! i of None \<Rightarrow> b | Some e \<Rightarrow> e))
             \<and> (b < 2 \<longrightarrow> rs ! i < 2)))"
proof (induction qs arbitrary: s)
  case Nil
  show ?case by simp
next
  case (Cons q qs)
  obtain b a bb p where q: "q = (b, a, bb, p)" by (cases q) auto
  let ?s1 = "loop_body q s"
  from loop_body_bob [of b a bb p s] q obtain r where
    r1: "bob_results ?s1 = bob_results s @ [r]" and
    r2: "shared_key ?s1 = shared_key s @ (if a = bb then [r] else [])" and
    r3: "a = bb \<longrightarrow> r = (case fst (fast_eavesdropping_simulation b a (gen s)) of
                              None \<Rightarrow> b | Some e \<Rightarrow> e)" and
    r4: "b < 2 \<longrightarrow> r < 2"
    by auto
  from Cons.IH [of ?s1] obtain rs where
    i1: "bob_results (bb84_loop qs ?s1) = bob_results ?s1 @ rs" and
    i2: "length rs = length qs" and
    i3: "shared_key (bb84_loop qs ?s1) =
           shared_key ?s1 @ map fst (filter snd (zip rs (map (\<lambda>(b, a, bb, p). a = bb) qs)))" and
    i4: "\<forall>i < length qs. (case qs ! i of (b, a, bb, p) \<Rightarrow>
             (a = bb \<longrightarrow> rs ! i = (case eve_guesses qs ?s1 ! i of None \<Rightarrow> b | Some e \<Rightarrow> e))
             \<and> (b < 2 \<longrightarrow> rs ! i < 2))"
    by blast
  have a1: "bob_results (bb84_loop (q # qs) s) = bob_results s @ (r # rs)"
    using i1 r1 by simp
  have a2: "length (r # rs) = length (q # qs)" using i2 by simp
  have a3: "shared_key (bb84_loop (q # qs) s) =
           shared_key s @ map fst (filter snd (zip (r # rs) (map (\<lambda>(b, a, bb, p). a = bb) (q # qs))))"
    using i3 r2 q by simp
  have a4: "\<forall>i < length (q # qs). (case (q # qs) ! i of (b, a, bb, p) \<Rightarrow>
             (a = bb \<longrightarrow> (r # rs) ! i = (case eve_guesses (q # qs) s ! i of None \<Rightarrow> b | Some e \<Rightarrow> e))
             \<and> (b < 2 \<longrightarrow> (r # rs) ! i < 2))"
  proof (intro allI impI)
    fix i assume "i < length (q # qs)"
    show "case (q # qs) ! i of (b, a, bb, p) \<Rightarrow>
             (a = bb \<longrightarrow> (r # rs) ! i = (case eve_guesses (q # qs) s ! i of None \<Rightarrow> b | Some e \<Rightarrow> e))
             \<and> (b < 2 \<longrightarrow> (r # rs) ! i < 2)"
    proof (cases i)
      case 0
      then show ?thesis using r3 r4 q by simp
    next
      case (Suc k)
      with \<open>i < length (q # qs)\<close> have "k < length qs" by simp
      with i4 Suc show ?thesis by simp
    qed
  qed
  from a1 a2 a3 a4 show ?case by blast
qed

section \<open>The run of \<open>bb84_protocol\<close>\<close>

lemma seed_generator_accepted:
  "seed_accepted seed \<Longrightarrow> \<exists>g. seed_generator mt seed g0 = Inr g"
  by (cases seed) (simp_all add: seed_generator_def np_random_seed_def)

lemma seed_generator_rejected:
  "\<not> seed_accepted seed \<Longrightarrow> seed_generator mt seed g0 = Inl ValueError"
  by (cases seed) (auto simp: seed_generator_def np_random_seed_def)

lemma polarization_lookup:
  "b < 2 \<Longrightarrow> a < 2 \<Longrightarrow> \<exists>s. dict_get polarization_symbols (b, a) = Inr s"
proof -
  assume "b < 2" "a < 2"
  then have "(b = 0 \<or> b = 1) \<and> (a = 0 \<or> a = 1)" by auto
  then show ?thesis by (auto simp: dict_get_def polarization_symbols_def)
qed

lemma derive_polarizations_ok:
  "\<forall>p \<in> set ps. fst p < 2 \<and> snd p < 2 \<Longrightarrow>
     \<exists>ss. derive_polarizations ps = Inr ss \<and> length ss = length ps"
proof (induction ps)
  case Nil
  show ?case by simp
next
  case (Cons p ps)
  obtain b a where p: "p = (b, a)" by (cases p)
  with Cons.prems have "b < 2" "a < 2" by auto
  then obtain s where "dict_get polarization_symbols p = Inr s"
    using polarization_lookup p by blast
  moreover from Cons obtain ss where "derive_polarizations ps = Inr ss" "length ss = length ps"
    by auto
  ultimately show ?case by (simp add: and_then_def)
qed

lemma derive_polarizations_nth:
  "derive_polarizations ps = Inr ss \<Longrightarrow>
     length ss = length ps \<and> (\<forall>i < length ps. dict_get polarization_symbols (ps ! i) = Inr (ss ! i))"
proof (induction ps arbitrary: ss)
  case Nil
  then show ?case by simp
next
  case (Cons p ps)
  from Cons.prems obtain s ss' where
    s: "dict_get polarization_symbols p = Inr s" and
    r: "derive_polarizations ps = Inr ss'" and
    e: "ss = s # ss'"
    by (auto simp: and_then_def split: sum.splits)
  from Cons.IH [OF r] have ih: "length ss' = length ps"
    "\<forall>i < length ps. dict_get polarization_symbols (ps ! i) = Inr (ss' ! i)" by simp_all
  show ?case
  proof (intro conjI allI impI)
    show "length ss = length (p # ps)" using e ih(1) by simp
  next
    fix i assume "i < length (p # ps)"
    then show "dict_get polarization_symbols ((p # ps) ! i) = Inr (ss ! i)"
      using s e ih(2) by (cases i) simp_all
  qed
qed

lemma take_indices_ok:
  "set idx \<subseteq> {0..<length xs} \<Longrightarrow> take_indices xs idx = Inr (map (\<lambda>i. xs ! i) idx)"
  by (auto simp: take_indices_def)

lemma map2_nth:
  "map2 h (map f idx) (map g idx) = map (\<lambda>i. h (f i) (g i)) idx"
  by (induction idx) simp_all

lemma loop_init_fields:
  "bob_results (loop_init g) = []" "bob_polarizations (loop_init g) = []"
  "eve_interventions (loop_init g) = []" "matched_bases (loop_init g) = []"
  "shared_key (loop_init g) = []" "gen (loop_init g) = g"
  by (simp_all add: loop_init_def)

lemma zip4_length:
  "length ws = n \<Longrightarrow> length xs = n \<Longrightarrow> length ys = n \<Longrightarrow> length zs = n \<Longrightarrow>
     length (zip4 ws xs ys zs) = n"
  by (simp add: zip4_def)

lemma zip4_nth:
  "length ws = n \<Longrightarrow> length xs = n \<Longrightarrow> length ys = n \<Longrightarrow> length zs = n \<Longrightarrow> i < n \<Longrightarrow>
     zip4 ws xs ys zs ! i = (ws ! i, xs ! i, ys ! i, zs ! i)"
  by (simp add: zip4_def)

text \<open>With an accepted seed and a size that is not negative, no step raises.\<close>

lemma bb84_simulate_run:
  assumes sg: "seed_generator mt seed g0 = Inr g" and n: "0 \<le> n"
  shows "\<exists>l g3 g4 qs.
      bb84_simulate mt n seed g0 = Inr l
    \<and> length (loc_alice_bits l) = nat n \<and> (\<forall>b \<in> set (loc_alice_bits l). b < 2)
    \<and> length (loc_alice_bases l) = nat n \<and> (\<forall>b \<in> set (loc_alice_bases l). b < 2)
    \<and> length (loc_bob_bases l) = nat n \<and> (\<forall>b \<in> set (loc_bob_bases l). b < 2)
    \<and> derive_polarizations (zip (loc_alice_bits l) (loc_alice_bases l)) =
          Inr (loc_alice_polarizations l)
    \<and> length (loc_alice_polarizations l) = nat n
    \<and> qs = zip4 (loc_alice_bits l) (loc_alice_bases l) (loc_bob_bases l)
             (loc_alice_polarizations l)
    \<and> loc_loop l = (bb84_loop qs (loop_init g3))\<lparr>gen := g4\<rparr>
    \<and> loc_eve_guesses l = eve_guesses qs (loop_init g3)
    \<and> choice n (n div 2) (gen (bb84_loop qs (loop_init g3))) =
          Inr (loc_comparison_subset l, g4)
    \<and> distinct (loc_comparison_subset l)
    \<and> length (loc_comparison_subset l) = nat (n div 2)
    \<and> set (loc_comparison_subset l) \<subseteq> {0..<nat n}
    \<and> loc_error_rate l =
          np_mean (map (\<lambda>i. if loc_alice_bits l ! i \<noteq> bob_results (loc_loop l) ! i
                            then 1 else 0) (loc_comparison_subset l))"
proof -
  obtain ab g1 where d1: "randint2_fill (nat n) g = (ab, g1)" by (cases "randint2_fill (nat n) g")
  obtain abs g2 where d2: "randint2_fill (nat n) g1 = (abs, g2)" by (cases "randint2_fill (nat n) g1")
  obtain bbs g3 where d3: "randint2_fill (nat n) g2 = (bbs, g3)" by (cases "randint2_fill (nat n) g2")
  have l1: "length ab = nat n" using randint2_fill_length [of "nat n" g] d1 by simp
  have l2: "length abs = nat n" using randint2_fill_length [of "nat n" g1] d2 by simp
  have l3: "length bbs = nat n" using randint2_fill_length [of "nat n" g2] d3 by simp
  have b1: "\<forall>b \<in> set ab. b < 2" using randint2_fill_range [of _ "nat n" g] d1 by simp
  have b2: "\<forall>b \<in> set abs. b < 2" using randint2_fill_range [of _ "nat n" g1] d2 by simp
  have b3: "\<forall>b \<in> set bbs. b < 2" using randint2_fill_range [of _ "nat n" g2] d3 by simp
  have "\<forall>p \<in> set (zip ab abs). fst p < 2 \<and> snd p < 2"
    using b1 b2 by (auto dest: set_zip_leftD set_zip_rightD)
  then obtain pols where dp: "derive_polarizations (zip ab abs) = Inr pols"
    and lp: "length pols = nat n"
    using derive_polarizations_ok [of "zip ab abs"] l1 l2 by auto
  define qs where "qs = zip4 ab abs bbs pols"
  define s where "s = bb84_loop qs (loop_init g3)"
  have "0 \<le> n div 2" "n div 2 \<le> n" using n by simp_all
  then obtain sub g4 where ch: "choice n (n div 2) (gen s) = Inr (sub, g4)"
    and cd: "distinct sub" and cl: "length sub = nat (n div 2)"
    and cs: "set sub \<subseteq> {0..<nat n}"
    using choice_ok [of "n div 2" n "gen s"] by blast
  have lq: "length qs = nat n" using l1 l2 l3 lp by (simp add: qs_def zip4_def)
  obtain rs where br: "bob_results s = rs" and lr: "length rs = nat n"
    using loop_bob [of qs "loop_init g3"] lq by (auto simp: s_def loop_init_fields)
  have t1: "take_indices ab sub = Inr (map (\<lambda>i. ab ! i) sub)"
    using cs l1 by (simp add: take_indices_ok)
  have t2: "take_indices (bob_results s) sub = Inr (map (\<lambda>i. bob_results s ! i) sub)"
    using cs lr br by (simp add: take_indices_ok)
  define l where "l = \<lparr>loc_alice_bits = ab, loc_alice_bases = abs, loc_bob_bases = bbs,
      loc_alice_polarizations = pols, loc_loop = s\<lparr>gen := g4\<rparr>,
      loc_eve_guesses = eve_guesses qs (loop_init g3),
      loc_comparison_subset = sub,
      loc_error_rate = np_mean (map (\<lambda>i. if ab ! i \<noteq> bob_results s ! i then 1 else 0) sub)\<rparr>"
  have run: "bb84_simulate mt n seed g0 = Inr l"
    unfolding bb84_simulate_def
    using sg n d1 d2 d3 dp ch t1 t2
    by (simp add: and_then_def randint2_size_def Let_def qs_def [symmetric] s_def [symmetric]
        map2_nth l_def)
  show ?thesis
    apply (rule exI [of _ l], rule exI [of _ g3], rule exI [of _ g4], rule exI [of _ qs])
    using run l1 l2 l3 b1 b2 b3 dp lp ch cd cl cs
    by (simp add: l_def qs_def s_def)
qed

section \<open>Properties of the returned dictionaries\<close>

lemma bb84_return_fields:
  "field (bb84_return l) ''alice_bits'' = Some (IntList (loc_alice_bits l))"
  "field (bb84_return l) ''bob_bits'' = Some (IntList (bob_results (loc_loop l)))"
  "field (bb84_return l) ''alice_bases'' = Some (StrList (basis_names (loc_alice_bases l)))"
  "field (bb84_return l) ''bob_bases'' = Some (StrList (basis_names (loc_bob_bases l)))"
  "field (bb84_return l) ''alice_polarizations'' = Some (StrList (loc_alice_polarizations l))"
  "field (bb84_return l) ''bob_polarizations'' = Some (StrList (bob_polarizations (loc_loop l)))"
  "field (bb84_return l) ''matched_bases'' = Some (BoolList (matched_bases (loc_loop l)))"
  "field (bb84_return l) ''shared_key'' = Some (IntList (shared_key (loc_loop l)))"
  "field (bb84_return l) ''error_rate'' = Some (Float (loc_error_rate l))"
  "field (bb84_return l) ''eavesdropping_detected'' =
     Some (Bool (pf_gt (loc_error_rate l) (15 / 100)))"
  by (simp_all add: field_def bb84_return_def)

lemma bb84_protocol_run:
  "bb84_simulate mt n seed g0 = Inr l \<Longrightarrow> bb84_protocol mt n seed g0 = Inr (bb84_return l)"
  by (simp add: bb84_protocol_def and_then_def)

lemma bb84_negative: "n < 0 \<Longrightarrow> bb84_protocol mt n seed g0 = Inl ValueError"
  by (cases seed)
    (simp_all add: bb84_protocol_def bb84_simulate_def and_then_def seed_generator_def
      np_random_seed_def randint2_size_def)

lemma e91_negative: "n < 0 \<Longrightarrow> e91_protocol mt n seed g0 = Inl ValueError"
  by (cases seed)
    (simp_all add: e91_protocol_def and_then_def seed_generator_def
      np_random_seed_def randint2_size_def)

lemma bb84_rejected_seed: "\<not> seed_accepted seed \<Longrightarrow> bb84_protocol mt n seed g0 = Inl ValueError"
  by (simp add: bb84_protocol_def bb84_simulate_def and_then_def seed_generator_rejected)

lemma e91_rejected_seed: "\<not> seed_accepted seed \<Longrightarrow> e91_protocol mt n seed g0 = Inl ValueError"
  by (simp add: e91_protocol_def and_then_def seed_generator_rejected)

lemma map2_index:
  "length xs = n \<Longrightarrow> length ys = n \<Longrightarrow> map2 h xs ys = map (\<lambda>i. h (xs ! i) (ys ! i)) [0..<n]"
  by (rule nth_equalityI) simp_all

lemma sum_list_indicator:
  "sum_list (map (\<lambda>i. if P i then 1 else 0) idx) = length (filter P idx)"
  by (induction idx) simp_all

lemma np_mean_fraction:
  "idx \<noteq> [] \<Longrightarrow>
     np_mean (map (\<lambda>i. if P i then 1 else 0) idx) =
       Fin (of_nat (length (filter P idx)) / of_nat (length idx))"
  by (simp add: np_mean_def sum_list_indicator)

lemma np_mean_empty: "np_mean [] = NaN"
  by (simp add: np_mean_def)

lemma fraction_in_unit:
  "idx \<noteq> [] \<Longrightarrow> pf_in_unit (Fin (of_nat (length (filter P idx)) / of_nat (length idx)))"
proof -
  assume "idx \<noteq> []"
  then have "0 < length idx" by simp
  moreover have "length (filter P idx) \<le> length idx" by (rule length_filter_le)
  ultimately show ?thesis by (simp add: divide_le_eq_1)
qed

lemma e91_run:
  assumes sg: "seed_generator mt seed g0 = Inr g" and n: "0 \<le> n"
  shows "e91_protocol mt n seed g0 =
     (let a = map (\<lambda>i. entropy g (cursor g + i) mod 2) [0..<nat n];
          b = map (\<lambda>i. entropy g (cursor g + nat n + i) mod 2) [0..<nat n];
          cr = np_mean (map (\<lambda>i. if a ! i = b ! i then 1 else 0) [0..<nat n])
      in Inr [(''alice_bases'', IntList a), (''bob_bases'', IntList b),
              (''correlation_rate'', Float cr), (''eavesdropped'', Bool (pf_lt cr (7 / 10)))])"
proof -
  define a where "a = map (\<lambda>i. entropy g (cursor g + i) mod 2) [0..<nat n]"
  define b where "b = map (\<lambda>i. entropy g (cursor g + nat n + i) mod 2) [0..<nat n]"
  have la: "length a = nat n" and lb: "length b = nat n" by (simp_all add: a_def b_def)
  have m: "map2 (\<lambda>x y. if x = y then 1 else 0) a b =
           map (\<lambda>i. if a ! i = b ! i then (1::nat) else 0) [0..<nat n]"
    using la lb by (rule map2_index)
  show ?thesis
    unfolding e91_protocol_def
    using sg n m
    by (simp add: and_then_def randint2_size_def randint2_fill_cells Let_def
        a_def [symmetric] b_def [symmetric])
qed

lemma and_then_Inr: "and_then (Inr x) f = f x" by (simp add: and_then_def)
lemma and_then_Inl: "and_then (Inl e) f = Inl e" by (simp add: and_then_def)

lemma bb84_zero:
  "seed_accepted seed \<Longrightarrow> bb84_protocol mt 0 seed g0 =
     Inr [(''alice_bits'', IntList []), (''bob_bits'', IntList []),
          (''alice_bases'', StrList []), (''bob_bases'', StrList []),
          (''alice_polarizations'', StrList []), (''bob_polarizations'', StrList []),
          (''matched_bases'', BoolList []), (''shared_key'', IntList []),
          (''error_rate'', Float NaN), (''eavesdropping_detected'', Bool False)]"
proof -
  assume "seed_accepted seed"
  then obtain g where "seed_generator mt seed g0 = Inr g"
    using seed_generator_accepted by blast
  then show ?thesis
    by (simp add: bb84_protocol_def bb84_simulate_def bb84_return_def and_then_def
        randint2_size_def zip4_def loop_init_def choice_def permutation_def take_indices_def
        np_mean_def basis_names_def)
qed

lemma e91_zero:
  "seed_accepted seed \<Longrightarrow> e91_protocol mt 0 seed g0 =
     Inr [(''alice_bases'', IntList []), (''bob_bases'', IntList []),
          (''correlation_rate'', Float NaN), (''eavesdropped'', Bool False)]"
proof -
  assume "seed_accepted seed"
  then obtain g where "seed_generator mt seed g0 = Inr g"
    using seed_generator_accepted by blast
  then show ?thesis
    by (simp add: e91_run np_mean_def)
qed

lemma symbols_distinct:
  "distinct [arrow_up, arrow_up_right, arrow_right, arrow_down_right, ''?'']"
  by (simp add: arrow_up_def arrow_up_right_def arrow_right_def arrow_down_right_def)

lemma sifted_length:
  "length xs = length ms \<Longrightarrow>
     length (map fst (filter snd (zip xs ms))) = length (filter id ms)"
  by (induction xs ms rule: list_induct2) simp_all

lemma basis_name_eq:
  "a < 2 \<Longrightarrow> b < 2 \<Longrightarrow>
     ((if a = 0 then ''+'' else ''X'') = (if b = 0 then ''+'' else ''X'')) = (a = (b::nat))"
  by auto

text \<open>The run of the loop as the returned sequences show it.\<close>

lemma bb84_run_sequences:
  assumes sg: "seed_accepted seed" and n: "0 \<le> n"
  shows "\<exists>l. bb84_simulate mt n seed g0 = Inr l
    \<and> length (loc_alice_bits l) = nat n \<and> (\<forall>b \<in> set (loc_alice_bits l). b < 2)
    \<and> length (loc_alice_bases l) = nat n \<and> (\<forall>b \<in> set (loc_alice_bases l). b < 2)
    \<and> length (loc_bob_bases l) = nat n \<and> (\<forall>b \<in> set (loc_bob_bases l). b < 2)
    \<and> length (loc_alice_polarizations l) = nat n
    \<and> length (bob_results (loc_loop l)) = nat n
    \<and> (\<forall>b \<in> set (bob_results (loc_loop l)). b < 2)
    \<and> matched_bases (loc_loop l) =
         map (\<lambda>i. loc_alice_bases l ! i = loc_bob_bases l ! i) [0..<nat n]
    \<and> bob_polarizations (loc_loop l) =
         map (\<lambda>i. if loc_alice_bases l ! i = loc_bob_bases l ! i
                   then loc_alice_polarizations l ! i else ''?'') [0..<nat n]
    \<and> shared_key (loc_loop l) =
         map fst (filter snd (zip (bob_results (loc_loop l)) (matched_bases (loc_loop l))))
    \<and> length (loc_eve_guesses l) = nat n
    \<and> eve_interventions (loc_loop l) = map (\<lambda>e. e \<noteq> None) (loc_eve_guesses l)
    \<and> (\<forall>i < nat n. loc_alice_bases l ! i = loc_bob_bases l ! i \<longrightarrow>
          bob_results (loc_loop l) ! i =
            (case loc_eve_guesses l ! i of None \<Rightarrow> loc_alice_bits l ! i | Some e \<Rightarrow> e))
    \<and> distinct (loc_comparison_subset l)
    \<and> length (loc_comparison_subset l) = nat (n div 2)
    \<and> set (loc_comparison_subset l) \<subseteq> {0..<nat n}
    \<and> (\<exists>perm. mset perm = mset [0..<nat n]
           \<and> loc_comparison_subset l = take (nat (n div 2)) perm)
    \<and> loc_error_rate l =
          np_mean (map (\<lambda>i. if loc_alice_bits l ! i \<noteq> bob_results (loc_loop l) ! i
                            then 1 else 0) (loc_comparison_subset l))"
proof -
  from sg obtain g where g: "seed_generator mt seed g0 = Inr g"
    using seed_generator_accepted by blast
  from bb84_simulate_run [OF g n] obtain l g3 g4 qs where
    run: "bb84_simulate mt n seed g0 = Inr l" and
    l1: "length (loc_alice_bits l) = nat n" and b1: "\<forall>b \<in> set (loc_alice_bits l). b < 2" and
    l2: "length (loc_alice_bases l) = nat n" and b2: "\<forall>b \<in> set (loc_alice_bases l). b < 2" and
    l3: "length (loc_bob_bases l) = nat n" and b3: "\<forall>b \<in> set (loc_bob_bases l). b < 2" and
    lp: "length (loc_alice_polarizations l) = nat n" and
    qs: "qs = zip4 (loc_alice_bits l) (loc_alice_bases l) (loc_bob_bases l)
             (loc_alice_polarizations l)" and
    lo: "loc_loop l = (bb84_loop qs (loop_init g3))\<lparr>gen := g4\<rparr>" and
    eg: "loc_eve_guesses l = eve_guesses qs (loop_init g3)" and
    ch: "choice n (n div 2) (gen (bb84_loop qs (loop_init g3))) =
          Inr (loc_comparison_subset l, g4)" and
    cd: "distinct (loc_comparison_subset l)" and
    cl: "length (loc_comparison_subset l) = nat (n div 2)" and
    cs: "set (loc_comparison_subset l) \<subseteq> {0..<nat n}" and
    er: "loc_error_rate l =
          np_mean (map (\<lambda>i. if loc_alice_bits l ! i \<noteq> bob_results (loc_loop l) ! i
                            then 1 else 0) (loc_comparison_subset l))"
    by blast
  have lq: "length qs = nat n" using qs l1 l2 l3 lp by (simp add: zip4_length)
  have nq: "\<And>i. i < nat n \<Longrightarrow> qs ! i = (loc_alice_bits l ! i, loc_alice_bases l ! i,
      loc_bob_bases l ! i, loc_alice_polarizations l ! i)"
    using qs l1 l2 l3 lp by (simp add: zip4_nth)
  have mq: "map (\<lambda>(b, a, bb, p). a = bb) qs =
            map (\<lambda>i. loc_alice_bases l ! i = loc_bob_bases l ! i) [0..<nat n]"
    using lq nq by (intro nth_equalityI) simp_all
  have m: "matched_bases (loc_loop l) =
         map (\<lambda>i. loc_alice_bases l ! i = loc_bob_bases l ! i) [0..<nat n]"
    using mq by (simp add: lo loop_matched loop_init_fields)
  have "map (\<lambda>(b, a, bb, p). if a = bb then p else ''?'') qs =
        map (\<lambda>i. if loc_alice_bases l ! i = loc_bob_bases l ! i
                   then loc_alice_polarizations l ! i else ''?'') [0..<nat n]"
    using lq nq by (intro nth_equalityI) simp_all
  then have p: "bob_polarizations (loc_loop l) =
         map (\<lambda>i. if loc_alice_bases l ! i = loc_bob_bases l ! i
                   then loc_alice_polarizations l ! i else ''?'') [0..<nat n]"
    by (simp add: lo loop_polarizations loop_init_fields)
  have e: "eve_interventions (loc_loop l) = map (\<lambda>e. e \<noteq> None) (loc_eve_guesses l)"
    by (simp add: lo eg loop_eve loop_init_fields)
  have le: "length (loc_eve_guesses l) = nat n"
    by (simp add: eg eve_guesses_length lq)
  from loop_bob [of qs "loop_init g3"] obtain rs where
    r1: "bob_results (bb84_loop qs (loop_init g3)) = rs" and
    r2: "length rs = length qs" and
    r3: "shared_key (bb84_loop qs (loop_init g3)) =
           map fst (filter snd (zip rs (map (\<lambda>(b, a, bb, p). a = bb) qs)))" and
    r4: "\<forall>i < length qs. (case qs ! i of (b, a, bb, p) \<Rightarrow>
             (a = bb \<longrightarrow> rs ! i = (case eve_guesses qs (loop_init g3) ! i of
                                      None \<Rightarrow> b | Some e \<Rightarrow> e))
             \<and> (b < 2 \<longrightarrow> rs ! i < 2))"
    by (auto simp: loop_init_fields)
  have br: "bob_results (loc_loop l) = rs" using r1 by (simp add: lo)
  have lb: "length (bob_results (loc_loop l)) = nat n" using br r2 lq by simp
  have k: "shared_key (loc_loop l) =
         map fst (filter snd (zip (bob_results (loc_loop l)) (matched_bases (loc_loop l))))"
    using r3 br m mq by (simp add: lo)
  have at: "\<And>i. i < nat n \<Longrightarrow>
      (loc_alice_bases l ! i = loc_bob_bases l ! i \<longrightarrow>
          rs ! i = (case loc_eve_guesses l ! i of None \<Rightarrow> loc_alice_bits l ! i | Some e \<Rightarrow> e))
      \<and> rs ! i < 2"
  proof -
    fix i assume i: "i < nat n"
    then have "loc_alice_bits l ! i \<in> set (loc_alice_bits l)" using l1 by simp
    then have "loc_alice_bits l ! i < 2" using b1 by blast
    then show "(loc_alice_bases l ! i = loc_bob_bases l ! i \<longrightarrow>
          rs ! i = (case loc_eve_guesses l ! i of None \<Rightarrow> loc_alice_bits l ! i | Some e \<Rightarrow> e))
      \<and> rs ! i < 2"
      using r4 i lq nq [OF i] eg by auto
  qed
  have bb: "\<forall>b \<in> set (bob_results (loc_loop l)). b < 2"
    using at br r2 lq by (auto simp: in_set_conv_nth)
  have mt: "\<forall>i < nat n. loc_alice_bases l ! i = loc_bob_bases l ! i \<longrightarrow>
          bob_results (loc_loop l) ! i =
            (case loc_eve_guesses l ! i of None \<Rightarrow> loc_alice_bits l ! i | Some e \<Rightarrow> e)"
    using at br by simp
  have pm: "\<exists>perm. mset perm = mset [0..<nat n]
           \<and> loc_comparison_subset l = take (nat (n div 2)) perm"
    using ch by (rule choice_prefix)
  show ?thesis
    apply (rule exI [of _ l])
    apply (intro conjI)
    using run l1 b1 l2 b2 l3 b3 lp lb bb m p k le e mt cd cl cs pm er by blast+
qed

section \<open>Which calls return\<close>

lemma bb84_returned:
  assumes "bb84_protocol mt n seed g0 = Inr d"
  shows "seed_accepted seed" and "0 \<le> n"
proof -
  show "seed_accepted seed" using assms bb84_rejected_seed [of seed mt n g0] by auto
  show "0 \<le> n" using assms bb84_negative [of n mt seed g0] by (cases "n < 0") auto
qed

lemma e91_returned:
  assumes "e91_protocol mt n seed g0 = Inr d"
  shows "seed_accepted seed" and "0 \<le> n"
proof -
  show "seed_accepted seed" using assms e91_rejected_seed [of seed mt n g0] by auto
  show "0 \<le> n" using assms e91_negative [of n mt seed g0] by (cases "n < 0") auto
qed

lemma bb84_returns:
  "seed_accepted seed \<Longrightarrow> 0 \<le> n \<Longrightarrow> \<exists>d. bb84_protocol mt n seed g0 = Inr d"
  using bb84_run_sequences [of seed n mt g0] bb84_protocol_run [of mt n seed g0] by blast

lemma e91_returns:
  "seed_accepted seed \<Longrightarrow> 0 \<le> n \<Longrightarrow> \<exists>d. e91_protocol mt n seed g0 = Inr d"
  using seed_generator_accepted [of seed mt g0] e91_run [of mt seed g0 _ n]
  by (auto simp: Let_def)

section \<open>Evaluation on concrete inputs\<close>

lemma and_then_weak_cong: "m = m' \<Longrightarrow> and_then m f = and_then m' f"
  by simp

lemma randint2_fill_numeral:
  "randint2_fill (numeral k) g =
     (case randint2 g of (b, g1) \<Rightarrow>
        (case randint2_fill (pred_numeral k) g1 of (bs, g2) \<Rightarrow> (b # bs, g2)))"
  by (simp add: numeral_eq_Suc)

lemma shuffle_numeral:
  "shuffle (numeral k) xs g =
     (case next_raw g of (r, g') \<Rightarrow>
        (let j = r mod Suc (numeral k)
         in shuffle (pred_numeral k) (xs[numeral k := xs ! j, j := xs ! numeral k]) g'))"
  by (simp add: numeral_eq_Suc)

lemma upt_numeral:
  "[i..<numeral k] = (if i < numeral k then i # [Suc i..<numeral k] else [])"
  by (rule upt_rec)

lemma list_update_numeral: "(x # xs)[numeral k := v] = x # xs[pred_numeral k := v]"
  by (simp add: numeral_eq_Suc)

lemmas run_defs =
  bb84_protocol_def bb84_simulate_def bb84_return_def e91_protocol_def seed_generator_def
  np_random_seed_def and_then_Inr and_then_Inl randint2_size_def randint2_def next_raw_def
  random_sample_def fast_eavesdropping_simulation_def loop_body_def loop_init_def zip4_def
  choice_def permutation_def np_mean_def take_indices_def dict_get_def
  polarization_symbols_def scramble_def Let_def basis_names_def randint2_fill_numeral
  shuffle_numeral upt_numeral list_update_numeral

text \<open>
  A run of four qubits on \<open>example_tape\<close>. Eve intercepts qubits 0 and 3; the bases
  differ at qubit 1; the sample is \<open>[1, 0]\<close>, so it contains a qubit whose bases differ.
\<close>

lemma worked_example:
  "bb84_simulate mt 4 None (tape_source example_tape) =
     Inr \<lparr>loc_alice_bits = [0, 1, 1, 0], loc_alice_bases = [0, 1, 0, 1],
          loc_bob_bases = [0, 0, 0, 1],
          loc_alice_polarizations = [arrow_up, arrow_down_right, arrow_right, arrow_up_right],
          loc_loop =
            \<lparr>bob_results = [1, 1, 1, 0],
             bob_polarizations = [arrow_up, ''?'', arrow_right, arrow_up_right],
             eve_interventions = [True, False, False, True],
             matched_bases = [True, False, True, True], shared_key = [1, 1, 0],
             gen = (tape_source example_tape)\<lparr>cursor := 22\<rparr>\<rparr>,
          loc_eve_guesses = [Some 1, None, None, Some 0],
          loc_comparison_subset = [1, 0], loc_error_rate = Fin (1 / 2)\<rparr>"
  by (simp add: run_defs tape_source_def example_tape_def cong: and_then_weak_cong)

lemma worked_example_result:
  "bb84_protocol mt 4 None (tape_source example_tape) = Inr example_result"
  using bb84_protocol_run [OF worked_example, of mt]
  by (simp add: bb84_return_def example_result_def basis_names_def)

lemma worked_example_e91:
  "e91_protocol mt 4 None (tape_source example_tape) = Inr example_result_e91"
  by (simp add: run_defs tape_source_def example_tape_def example_result_e91_def
      cong: and_then_weak_cong)

text \<open>
  Two runs of one qubit: in the first Eve intercepts and guesses Alice's bit, in the
  second she does not intercept. The returned dictionaries are equal.
\<close>

lemma interception_hidden_example:
  assumes "bb84_simulate mt 1 None (constant_source 0) = Inr l0"
    and "bb84_simulate mt 1 None (constant_source (2 ^ 52)) = Inr l1"
  shows "eve_interventions (loc_loop l0) = [True] \<and> eve_interventions (loc_loop l1) = [False]
     \<and> bb84_return l0 = bb84_return l1"
  using assms by (auto simp add: run_defs constant_source_def cong: and_then_weak_cong)

text \<open>Without a seed the result depends on the state of the global generator.\<close>

lemma unseeded_runs_differ:
  "e91_protocol mt 1 None (constant_source 0) \<noteq> e91_protocol mt 1 None (tape_source [0, 1])"
  by (simp add: run_defs constant_source_def tape_source_def cong: and_then_weak_cong)

section \<open>The claims\<close>

text \<open>
  C1 (as amended). When the comparison subset is empty (\<open>n_qubits div 2 = 0\<close>, that is
  \<open>n_qubits\<close> 1 or 0) and the seed is absent or accepted by \<^verbatim>\<open>np.random.seed\<close>,
  \<^verbatim>\<open>bb84_protocol\<close> raises nothing and returns \<^verbatim>\<open>error_rate\<close> = \<^verbatim>\<open>nan\<close> (the mean of an
  empty array), not 0.0, and \<^verbatim>\<open>eavesdropping_detected\<close> = false.
\<close>

theorem bb84_degenerate_sample:
  assumes "seed_accepted seed" and "0 \<le> n" and "n div 2 = 0"
  shows "\<exists>d. bb84_protocol mt n seed g0 = Inr d
           \<and> field d ''error_rate'' = Some (Float NaN)
           \<and> field d ''eavesdropping_detected'' = Some (Bool False)"
proof -
  from bb84_run_sequences [OF assms(1,2), of mt g0] obtain l where
    run: "bb84_simulate mt n seed g0 = Inr l" and
    cl: "length (loc_comparison_subset l) = nat (n div 2)" and
    er: "loc_error_rate l =
          np_mean (map (\<lambda>i. if loc_alice_bits l ! i \<noteq> bob_results (loc_loop l) ! i
                            then 1 else 0) (loc_comparison_subset l))"
    by blast
  from cl assms(3) have "loc_comparison_subset l = []" by simp
  with er have "loc_error_rate l = NaN" by (simp add: np_mean_empty)
  then show ?thesis
    using bb84_protocol_run [OF run] by (simp add: bb84_return_fields)
qed

text \<open>C1, the instance \<^verbatim>\<open>bb84_protocol(1, 0)\<close> of the amended statement.\<close>

theorem bb84_degenerate_sample_witness:
  "\<exists>d. bb84_protocol example_mt 1 (Some 0) example_g0 = Inr d
           \<and> field d ''error_rate'' = Some (Float NaN)
           \<and> field d ''eavesdropping_detected'' = Some (Bool False)"
  using bb84_degenerate_sample [of "Some 0" 1 example_mt example_g0] by simp

text \<open>
  C1 as stated fails: \<^verbatim>\<open>bb84_protocol(1, 0)\<close> returns \<^verbatim>\<open>error_rate\<close> = \<^verbatim>\<open>nan\<close>, and
  \<^verbatim>\<open>nan == 0.0\<close> is false.
\<close>

theorem bb84_error_rate_nan:
  "bb84_protocol example_mt 1 (Some 0) example_g0 =
     Inr [(''alice_bits'', IntList [0]), (''bob_bits'', IntList [0]),
          (''alice_bases'', StrList [''+'']), (''bob_bases'', StrList [''+'']),
          (''alice_polarizations'', StrList [arrow_up]),
          (''bob_polarizations'', StrList [arrow_up]),
          (''matched_bases'', BoolList [True]), (''shared_key'', IntList [0]),
          (''error_rate'', Float NaN),
          (''eavesdropping_detected'', Bool False)]
   \<and> \<not> pf_eq NaN 0"
  by (simp add: run_defs example_mt_def cong: and_then_weak_cong)

text \<open>
  C2 (as amended). No validation precedes the simulation. A negative \<open>n_qubits\<close> makes
  both methods raise \<^verbatim>\<open>ValueError\<close> (from the first array draw). \<open>n_qubits = 0\<close> is
  accepted: with a seed that is absent or accepted both methods return empty sequences,
  a \<^verbatim>\<open>nan\<close> rate and a false flag.
\<close>

theorem nonpositive_qubits:
  "(n < 0 \<longrightarrow> bb84_protocol mt n seed g0 = Inl ValueError
            \<and> e91_protocol mt n seed g0 = Inl ValueError)
   \<and> (n = 0 \<and> seed_accepted seed \<longrightarrow>
        bb84_protocol mt n seed g0 =
          Inr [(''alice_bits'', IntList []), (''bob_bits'', IntList []),
               (''alice_bases'', StrList []), (''bob_bases'', StrList []),
               (''alice_polarizations'', StrList []), (''bob_polarizations'', StrList []),
               (''matched_bases'', BoolList []), (''shared_key'', IntList []),
               (''error_rate'', Float NaN), (''eavesdropping_detected'', Bool False)]
      \<and> e91_protocol mt n seed g0 =
          Inr [(''alice_bases'', IntList []), (''bob_bases'', IntList []),
               (''correlation_rate'', Float NaN), (''eavesdropped'', Bool False)])"
  using bb84_negative [of n mt seed g0] e91_negative [of n mt seed g0]
    bb84_zero [of seed mt g0] e91_zero [of seed mt g0]
  by blast

text \<open>C2, the instances \<open>n_qubits = -1\<close> and \<open>n_qubits = 0\<close> of the amended statement.\<close>

theorem nonpositive_qubits_witness:
  "bb84_protocol example_mt (- 1) (Some 42) example_g0 = Inl ValueError
   \<and> e91_protocol example_mt (- 1) (Some 42) example_g0 = Inl ValueError
   \<and> result_field (bb84_protocol example_mt 0 (Some 42) example_g0) ''error_rate'' =
        Some (Float NaN)
   \<and> result_field (e91_protocol example_mt 0 (Some 42) example_g0) ''correlation_rate'' =
        Some (Float NaN)"
  using nonpositive_qubits [of "- 1" example_mt "Some 42" example_g0]
    nonpositive_qubits [of 0 example_mt "Some 42" example_g0]
  by (simp add: result_field_def field_def)

text \<open>C2 as stated fails: with \<open>n_qubits = 0\<close> neither method rejects the call.\<close>

theorem zero_qubits_not_rejected:
  "e91_protocol example_mt 0 (Some 0) example_g0 =
     Inr [(''alice_bases'', IntList []), (''bob_bases'', IntList []),
          (''correlation_rate'', Float NaN), (''eavesdropped'', Bool False)]
   \<and> bb84_protocol example_mt 0 (Some 0) example_g0 =
     Inr [(''alice_bits'', IntList []), (''bob_bits'', IntList []),
          (''alice_bases'', StrList []), (''bob_bases'', StrList []),
          (''alice_polarizations'', StrList []), (''bob_polarizations'', StrList []),
          (''matched_bases'', BoolList []), (''shared_key'', IntList []),
          (''error_rate'', Float NaN), (''eavesdropping_detected'', Bool False)]"
  by (simp add: e91_protocol_def bb84_protocol_def bb84_simulate_def bb84_return_def
      and_then_def seed_generator_def np_random_seed_def
      randint2_size_def zip4_def loop_init_def choice_def permutation_def take_indices_def
      np_mean_def basis_names_def)

text \<open>
  C3 (as amended). For every positive \<open>n_qubits\<close> and any seed: with a seed that is
  absent or accepted both methods return; in every result of \<^verbatim>\<open>bb84_protocol\<close> all bits of
  \<^verbatim>\<open>alice_bits\<close>, \<^verbatim>\<open>bob_bits\<close> and \<^verbatim>\<open>shared_key\<close> are 0 or 1, and \<^verbatim>\<open>error_rate\<close> lies in
  \<open>[0, 1]\<close> when \<open>n_qubits \<ge> 2\<close>; in every result of \<^verbatim>\<open>e91_protocol\<close> \<^verbatim>\<open>correlation_rate\<close>
  lies in \<open>[0, 1]\<close>.
\<close>

theorem range_invariants:
  assumes "0 < n"
  shows "(seed_accepted seed \<longrightarrow>
            (\<exists>d. bb84_protocol mt n seed g0 = Inr d) \<and> (\<exists>d. e91_protocol mt n seed g0 = Inr d))
       \<and> (\<forall>d. bb84_protocol mt n seed g0 = Inr d \<longrightarrow>
            (\<exists>ab bb sk er.
               field d ''alice_bits'' = Some (IntList ab)
             \<and> field d ''bob_bits'' = Some (IntList bb)
             \<and> field d ''shared_key'' = Some (IntList sk)
             \<and> field d ''error_rate'' = Some (Float er)
             \<and> (\<forall>b \<in> set ab \<union> set bb \<union> set sk. b = 0 \<or> b = 1)
             \<and> (2 \<le> n \<longrightarrow> pf_in_unit er)))
       \<and> (\<forall>d. e91_protocol mt n seed g0 = Inr d \<longrightarrow>
            (\<exists>cr. field d ''correlation_rate'' = Some (Float cr) \<and> pf_in_unit cr))"
proof (intro conjI allI impI)
  assume "seed_accepted seed"
  then show "\<exists>d. bb84_protocol mt n seed g0 = Inr d"
    using assms bb84_returns [of seed n mt g0] by simp
next
  assume "seed_accepted seed"
  then show "\<exists>d. e91_protocol mt n seed g0 = Inr d"
    using assms e91_returns [of seed n mt g0] by simp
next
  fix d assume ret: "bb84_protocol mt n seed g0 = Inr d"
  have acc: "seed_accepted seed" and n0: "0 \<le> n" using bb84_returned [OF ret] by simp_all
  from bb84_run_sequences [OF acc n0, of mt g0] obtain l where
    run: "bb84_simulate mt n seed g0 = Inr l" and
    b1: "\<forall>b \<in> set (loc_alice_bits l). b < 2" and
    bb: "\<forall>b \<in> set (bob_results (loc_loop l)). b < 2" and
    k: "shared_key (loc_loop l) =
         map fst (filter snd (zip (bob_results (loc_loop l)) (matched_bases (loc_loop l))))" and
    cl: "length (loc_comparison_subset l) = nat (n div 2)" and
    er: "loc_error_rate l =
          np_mean (map (\<lambda>i. if loc_alice_bits l ! i \<noteq> bob_results (loc_loop l) ! i
                            then 1 else 0) (loc_comparison_subset l))"
    by blast
  have d: "d = bb84_return l" using ret bb84_protocol_run [OF run] by simp
  have "set (shared_key (loc_loop l)) \<subseteq> set (bob_results (loc_loop l))"
    unfolding k by (auto dest: set_zip_leftD)
  with b1 bb have bits: "\<forall>b \<in> set (loc_alice_bits l) \<union> set (bob_results (loc_loop l))
        \<union> set (shared_key (loc_loop l)). b = 0 \<or> b = 1"
    by fastforce
  have unit: "2 \<le> n \<longrightarrow> pf_in_unit (loc_error_rate l)"
  proof
    assume "2 \<le> n"
    then have ne: "loc_comparison_subset l \<noteq> []" using cl by auto
    show "pf_in_unit (loc_error_rate l)"
      unfolding er
      using np_mean_fraction [OF ne,
          of "\<lambda>i. loc_alice_bits l ! i \<noteq> bob_results (loc_loop l) ! i"]
        fraction_in_unit [OF ne,
          of "\<lambda>i. loc_alice_bits l ! i \<noteq> bob_results (loc_loop l) ! i"]
      by simp
  qed
  show "\<exists>ab bb sk er.
               field d ''alice_bits'' = Some (IntList ab)
             \<and> field d ''bob_bits'' = Some (IntList bb)
             \<and> field d ''shared_key'' = Some (IntList sk)
             \<and> field d ''error_rate'' = Some (Float er)
             \<and> (\<forall>b \<in> set ab \<union> set bb \<union> set sk. b = 0 \<or> b = 1)
             \<and> (2 \<le> n \<longrightarrow> pf_in_unit er)"
    unfolding d using bits unit bb84_return_fields(1,2,8,9) [of l] by blast
next
  fix d assume ret: "e91_protocol mt n seed g0 = Inr d"
  have acc: "seed_accepted seed" and n0: "0 \<le> n" using e91_returned [OF ret] by simp_all
  from acc obtain g where g: "seed_generator mt seed g0 = Inr g"
    using seed_generator_accepted by blast
  define a where "a = map (\<lambda>i. entropy g (cursor g + i) mod 2) [0..<nat n]"
  define b where "b = map (\<lambda>i. entropy g (cursor g + nat n + i) mod 2) [0..<nat n]"
  define cr where "cr = np_mean (map (\<lambda>i. if a ! i = b ! i then 1 else 0) [0..<nat n])"
  have e: "e91_protocol mt n seed g0 =
      Inr [(''alice_bases'', IntList a), (''bob_bases'', IntList b),
           (''correlation_rate'', Float cr), (''eavesdropped'', Bool (pf_lt cr (7 / 10)))]"
    using e91_run [OF g n0] by (simp add: Let_def a_def b_def cr_def)
  have ne: "[0..<nat n] \<noteq> []" using assms by simp
  have "pf_in_unit cr"
    unfolding cr_def
    using np_mean_fraction [OF ne, of "\<lambda>i. a ! i = b ! i"]
      fraction_in_unit [OF ne, of "\<lambda>i. a ! i = b ! i"]
    by simp
  then show "\<exists>cr. field d ''correlation_rate'' = Some (Float cr) \<and> pf_in_unit cr"
    using e ret by (auto simp: field_def)
qed

text \<open>C3, the instance \<open>n_qubits = 4\<close> without a seed, on the worked example.\<close>

theorem range_invariants_witness:
  "(\<exists>ab bb sk er.
        field example_result ''alice_bits'' = Some (IntList ab)
      \<and> field example_result ''bob_bits'' = Some (IntList bb)
      \<and> field example_result ''shared_key'' = Some (IntList sk)
      \<and> field example_result ''error_rate'' = Some (Float er)
      \<and> (\<forall>b \<in> set ab \<union> set bb \<union> set sk. b = 0 \<or> b = 1)
      \<and> pf_in_unit er)
   \<and> (\<exists>cr. field example_result_e91 ''correlation_rate'' = Some (Float cr) \<and> pf_in_unit cr)"
  using range_invariants [of 4 None example_mt "tape_source example_tape"]
    worked_example_result [of example_mt] worked_example_e91 [of example_mt]
  by simp

text \<open>
  C3 as stated fails: a run with \<open>n_qubits = 1\<close> returns \<^verbatim>\<open>error_rate\<close> = \<^verbatim>\<open>nan\<close>, which is
  not in \<open>[0, 1]\<close>.
\<close>

theorem bb84_error_rate_outside_unit:
  "bb84_protocol example_mt 1 None example_g0 =
     Inr [(''alice_bits'', IntList [1]), (''bob_bits'', IntList [1]),
          (''alice_bases'', StrList [''+'']), (''bob_bases'', StrList [''+'']),
          (''alice_polarizations'', StrList [arrow_right]),
          (''bob_polarizations'', StrList [arrow_right]),
          (''matched_bases'', BoolList [True]), (''shared_key'', IntList [1]),
          (''error_rate'', Float NaN),
          (''eavesdropping_detected'', Bool False)]
   \<and> \<not> pf_in_unit NaN"
  by (simp add: run_defs example_g0_def cong: and_then_weak_cong)

text \<open>
  C4. With an integer seed supplied, the result of either method does not depend on the
  state the global generator had before the call: two calls with the same
  \<open>(n_qubits, seed)\<close> return the same dictionary, field by field, or raise the same
  exception.
\<close>

theorem determinism:
  "bb84_protocol mt n (Some s) g0 = bb84_protocol mt n (Some s) g1
   \<and> e91_protocol mt n (Some s) g0 = e91_protocol mt n (Some s) g1"
  by (simp add: bb84_protocol_def bb84_simulate_def e91_protocol_def seed_generator_def)

text \<open>C4, two calls with \<open>(10, 42)\<close> from different generator states.\<close>

theorem determinism_witness:
  "bb84_protocol example_mt 10 (Some 42) example_g0 =
     bb84_protocol example_mt 10 (Some 42) (tape_source example_tape)
   \<and> e91_protocol example_mt 10 (Some 42) example_g0 =
     e91_protocol example_mt 10 (Some 42) (tape_source example_tape)"
  using determinism [of example_mt 10 42 example_g0 "tape_source example_tape"] by simp

text \<open>
  C5. In every result of \<^verbatim>\<open>bb84_protocol\<close> the comparison subset has no repeated index,
  has \<open>n_qubits div 2\<close> elements, and is a prefix of a permutation of the whole index range
  \<open>[0, n_qubits)\<close>, whatever the matched bases are; \<^verbatim>\<open>error_rate\<close> is the mean over the
  subset of the indicator "Alice's bit differs from Bob's bit", which is the fraction of
  such indices when the subset is not empty; and \<^verbatim>\<open>eavesdropping_detected\<close> is
  \<^verbatim>\<open>error_rate > 0.15\<close>.
\<close>

theorem error_rate_estimation:
  assumes "bb84_protocol mt n seed g0 = Inr d"
  shows "\<exists>l ab bb er.
      bb84_simulate mt n seed g0 = Inr l
    \<and> field d ''alice_bits'' = Some (IntList ab)
    \<and> field d ''bob_bits'' = Some (IntList bb)
    \<and> field d ''error_rate'' = Some (Float er)
    \<and> field d ''eavesdropping_detected'' = Some (Bool (pf_gt er (15 / 100)))
    \<and> distinct (loc_comparison_subset l)
    \<and> length (loc_comparison_subset l) = nat (n div 2)
    \<and> set (loc_comparison_subset l) \<subseteq> {0..<nat n}
    \<and> (\<exists>perm. mset perm = mset [0..<nat n]
           \<and> loc_comparison_subset l = take (nat (n div 2)) perm)
    \<and> er = np_mean (map (\<lambda>i. if ab ! i \<noteq> bb ! i then 1 else 0) (loc_comparison_subset l))
    \<and> (2 \<le> n \<longrightarrow>
          er = Fin (of_nat (length (filter (\<lambda>i. ab ! i \<noteq> bb ! i) (loc_comparison_subset l)))
                    / of_nat (nat (n div 2))))"
proof -
  have acc: "seed_accepted seed" and n0: "0 \<le> n" using bb84_returned [OF assms] by simp_all
  from bb84_run_sequences [OF acc n0, of mt g0] obtain l where
    run: "bb84_simulate mt n seed g0 = Inr l" and
    cd: "distinct (loc_comparison_subset l)" and
    cl: "length (loc_comparison_subset l) = nat (n div 2)" and
    cs: "set (loc_comparison_subset l) \<subseteq> {0..<nat n}" and
    pm: "\<exists>perm. mset perm = mset [0..<nat n]
           \<and> loc_comparison_subset l = take (nat (n div 2)) perm" and
    er: "loc_error_rate l =
          np_mean (map (\<lambda>i. if loc_alice_bits l ! i \<noteq> bob_results (loc_loop l) ! i
                            then 1 else 0) (loc_comparison_subset l))"
    by blast
  have d: "d = bb84_return l" using assms bb84_protocol_run [OF run] by simp
  have fr: "2 \<le> n \<longrightarrow> loc_error_rate l =
      Fin (of_nat (length (filter (\<lambda>i. loc_alice_bits l ! i \<noteq> bob_results (loc_loop l) ! i)
                            (loc_comparison_subset l)))
           / of_nat (nat (n div 2)))"
  proof
    assume "2 \<le> n"
    then have ne: "loc_comparison_subset l \<noteq> []" using cl by auto
    show "loc_error_rate l =
      Fin (of_nat (length (filter (\<lambda>i. loc_alice_bits l ! i \<noteq> bob_results (loc_loop l) ! i)
                            (loc_comparison_subset l)))
           / of_nat (nat (n div 2)))"
      unfolding er
      using np_mean_fraction [OF ne,
          of "\<lambda>i. loc_alice_bits l ! i \<noteq> bob_results (loc_loop l) ! i"] cl
      by simp
  qed
  show ?thesis
    unfolding d
    apply (rule exI [of _ l])
    apply (rule exI [of _ "loc_alice_bits l"], rule exI [of _ "bob_results (loc_loop l)"])
    apply (rule exI [of _ "loc_error_rate l"])
    apply (intro conjI)
    using run cd cl cs pm er fr
    by (simp_all add: bb84_return_fields)
qed

text \<open>C5 on the worked example: the sample is \<open>[1, 0]\<close> and the bases differ at qubit 1.\<close>

theorem error_rate_estimation_witness:
  "\<exists>l ab bb er.
      bb84_simulate example_mt 4 None (tape_source example_tape) = Inr l
    \<and> field example_result ''alice_bits'' = Some (IntList ab)
    \<and> field example_result ''bob_bits'' = Some (IntList bb)
    \<and> field example_result ''error_rate'' = Some (Float er)
    \<and> field example_result ''eavesdropping_detected'' = Some (Bool (pf_gt er (15 / 100)))
    \<and> distinct (loc_comparison_subset l)
    \<and> length (loc_comparison_subset l) = 2
    \<and> set (loc_comparison_subset l) \<subseteq> {0..<4}
    \<and> er = Fin (of_nat (length (filter (\<lambda>i. ab ! i \<noteq> bb ! i) (loc_comparison_subset l))) / 2)
    \<and> loc_comparison_subset l = [1, 0]
    \<and> matched_bases (loc_loop l) = [True, False, True, True]"
proof -
  from error_rate_estimation [OF worked_example_result, of example_mt]
  obtain l ab bb er where
    r: "bb84_simulate example_mt 4 None (tape_source example_tape) = Inr l" and
    f: "field example_result ''alice_bits'' = Some (IntList ab)"
      "field example_result ''bob_bits'' = Some (IntList bb)"
      "field example_result ''error_rate'' = Some (Float er)"
      "field example_result ''eavesdropping_detected'' = Some (Bool (pf_gt er (15 / 100)))" and
    c: "distinct (loc_comparison_subset l)"
      "length (loc_comparison_subset l) = nat (4 div 2)"
      "set (loc_comparison_subset l) \<subseteq> {0..<nat 4}" and
    e: "(2::int) \<le> 4 \<longrightarrow>
          er = Fin (of_nat (length (filter (\<lambda>i. ab ! i \<noteq> bb ! i) (loc_comparison_subset l)))
                    / of_nat (nat (4 div 2)))"
    by blast
  from r worked_example [of example_mt] have
    w: "loc_comparison_subset l = [1, 0]" "matched_bases (loc_loop l) = [True, False, True, True]"
    by auto
  have c2: "length (loc_comparison_subset l) = 2" using c(2) by simp
  have c3: "set (loc_comparison_subset l) \<subseteq> {0..<4}" using c(3) by simp
  have e2: "er = Fin (of_nat (length (filter (\<lambda>i. ab ! i \<noteq> bb ! i) (loc_comparison_subset l)))
                      / 2)"
    using e by simp
  show ?thesis using r f c(1) c2 c3 e2 w by blast
qed

text \<open>
  C6. In every result of \<^verbatim>\<open>bb84_protocol\<close>, \<^verbatim>\<open>shared_key\<close> is the subsequence of \<^verbatim>\<open>bob_bits\<close>
  at the positions where \<^verbatim>\<open>matched_bases\<close> is true, in index order; its length is the
  number of true entries of \<^verbatim>\<open>matched_bases\<close> and at most \<open>n_qubits\<close>; and at every matched
  index Bob's bit is Eve's guess when she intervened and Alice's bit otherwise.
\<close>

theorem shared_key_sifting:
  assumes "bb84_protocol mt n seed g0 = Inr d"
  shows "\<exists>l ab bb mb sk.
      bb84_simulate mt n seed g0 = Inr l
    \<and> field d ''alice_bits'' = Some (IntList ab)
    \<and> field d ''bob_bits'' = Some (IntList bb)
    \<and> field d ''matched_bases'' = Some (BoolList mb)
    \<and> field d ''shared_key'' = Some (IntList sk)
    \<and> length ab = nat n \<and> length bb = nat n \<and> length mb = nat n
    \<and> sk = map fst (filter snd (zip bb mb))
    \<and> length sk = length (filter id mb)
    \<and> length sk \<le> nat n
    \<and> length (loc_eve_guesses l) = nat n
    \<and> eve_interventions (loc_loop l) = map (\<lambda>e. e \<noteq> None) (loc_eve_guesses l)
    \<and> (\<forall>i < nat n. mb ! i \<longrightarrow>
          bb ! i = (case loc_eve_guesses l ! i of None \<Rightarrow> ab ! i | Some e \<Rightarrow> e))"
proof -
  have acc: "seed_accepted seed" and n0: "0 \<le> n" using bb84_returned [OF assms] by simp_all
  from bb84_run_sequences [OF acc n0, of mt g0] obtain l where
    run: "bb84_simulate mt n seed g0 = Inr l" and
    l1: "length (loc_alice_bits l) = nat n" and
    lb: "length (bob_results (loc_loop l)) = nat n" and
    m: "matched_bases (loc_loop l) =
         map (\<lambda>i. loc_alice_bases l ! i = loc_bob_bases l ! i) [0..<nat n]" and
    k: "shared_key (loc_loop l) =
         map fst (filter snd (zip (bob_results (loc_loop l)) (matched_bases (loc_loop l))))" and
    le: "length (loc_eve_guesses l) = nat n" and
    e: "eve_interventions (loc_loop l) = map (\<lambda>e. e \<noteq> None) (loc_eve_guesses l)" and
    mt: "\<forall>i < nat n. loc_alice_bases l ! i = loc_bob_bases l ! i \<longrightarrow>
          bob_results (loc_loop l) ! i =
            (case loc_eve_guesses l ! i of None \<Rightarrow> loc_alice_bits l ! i | Some e \<Rightarrow> e)"
    by blast
  have d: "d = bb84_return l" using assms bb84_protocol_run [OF run] by simp
  have lm: "length (matched_bases (loc_loop l)) = nat n" by (simp add: m)
  have kl: "length (shared_key (loc_loop l)) = length (filter id (matched_bases (loc_loop l)))"
    unfolding k
    using sifted_length [of "bob_results (loc_loop l)" "matched_bases (loc_loop l)"] lb lm
    by simp
  have "length (filter id (matched_bases (loc_loop l))) \<le> length (matched_bases (loc_loop l))"
    by (rule length_filter_le)
  with kl lm have kn: "length (shared_key (loc_loop l)) \<le> nat n" by simp
  have at: "\<forall>i < nat n. matched_bases (loc_loop l) ! i \<longrightarrow>
          bob_results (loc_loop l) ! i =
            (case loc_eve_guesses l ! i of None \<Rightarrow> loc_alice_bits l ! i | Some e \<Rightarrow> e)"
    using mt by (simp add: m)
  show ?thesis
    unfolding d
    apply (rule exI [of _ l])
    apply (rule exI [of _ "loc_alice_bits l"], rule exI [of _ "bob_results (loc_loop l)"])
    apply (rule exI [of _ "matched_bases (loc_loop l)"])
    apply (rule exI [of _ "shared_key (loc_loop l)"])
    apply (intro conjI)
    using run l1 lb lm k kl kn le e at
    by (simp_all add: bb84_return_fields)
qed

text \<open>C6 on the worked example, where the key is \<open>[1, 1, 0]\<close>.\<close>

theorem shared_key_sifting_witness:
  "\<exists>l ab bb mb sk.
      bb84_simulate example_mt 4 None (tape_source example_tape) = Inr l
    \<and> field example_result ''alice_bits'' = Some (IntList ab)
    \<and> field example_result ''bob_bits'' = Some (IntList bb)
    \<and> field example_result ''matched_bases'' = Some (BoolList mb)
    \<and> field example_result ''shared_key'' = Some (IntList sk)
    \<and> length ab = nat 4 \<and> length bb = nat 4 \<and> length mb = nat 4
    \<and> sk = map fst (filter snd (zip bb mb))
    \<and> length sk = length (filter id mb)
    \<and> length sk \<le> nat 4
    \<and> length (loc_eve_guesses l) = nat 4
    \<and> eve_interventions (loc_loop l) = map (\<lambda>e. e \<noteq> None) (loc_eve_guesses l)
    \<and> (\<forall>i < nat 4. mb ! i \<longrightarrow>
          bb ! i = (case loc_eve_guesses l ! i of None \<Rightarrow> ab ! i | Some e \<Rightarrow> e))"
  by (rule shared_key_sifting [OF worked_example_result])

text \<open>
  C7. In every result of \<^verbatim>\<open>bb84_protocol\<close> the seven per-index sequences have length
  \<open>n_qubits\<close>, and at every index \<open>i\<close>: \<^verbatim>\<open>matched_bases[i]\<close> is
  \<^verbatim>\<open>alice_bases[i] == bob_bases[i]\<close>; when it is true, \<^verbatim>\<open>bob_polarizations[i]\<close> is
  \<^verbatim>\<open>alice_polarizations[i]\<close>; when it is false, \<^verbatim>\<open>bob_polarizations[i]\<close> is the marker
  \<^verbatim>\<open>'?'\<close>, whatever Bob's basis is.
\<close>

theorem matched_basis_consistency:
  assumes "bb84_protocol mt n seed g0 = Inr d"
  shows "\<exists>abs bbs ap bp mb.
      field d ''alice_bases'' = Some (StrList abs)
    \<and> field d ''bob_bases'' = Some (StrList bbs)
    \<and> field d ''alice_polarizations'' = Some (StrList ap)
    \<and> field d ''bob_polarizations'' = Some (StrList bp)
    \<and> field d ''matched_bases'' = Some (BoolList mb)
    \<and> length abs = nat n \<and> length bbs = nat n \<and> length ap = nat n
    \<and> length bp = nat n \<and> length mb = nat n
    \<and> (\<forall>i < nat n.
          mb ! i = (abs ! i = bbs ! i)
        \<and> (mb ! i \<longrightarrow> bp ! i = ap ! i)
        \<and> (\<not> mb ! i \<longrightarrow> bp ! i = ''?''))"
proof -
  have acc: "seed_accepted seed" and n0: "0 \<le> n" using bb84_returned [OF assms] by simp_all
  from bb84_run_sequences [OF acc n0, of mt g0] obtain l where
    run: "bb84_simulate mt n seed g0 = Inr l" and
    l2: "length (loc_alice_bases l) = nat n" and b2: "\<forall>b \<in> set (loc_alice_bases l). b < 2" and
    l3: "length (loc_bob_bases l) = nat n" and b3: "\<forall>b \<in> set (loc_bob_bases l). b < 2" and
    lp: "length (loc_alice_polarizations l) = nat n" and
    m: "matched_bases (loc_loop l) =
         map (\<lambda>i. loc_alice_bases l ! i = loc_bob_bases l ! i) [0..<nat n]" and
    p: "bob_polarizations (loc_loop l) =
         map (\<lambda>i. if loc_alice_bases l ! i = loc_bob_bases l ! i
                   then loc_alice_polarizations l ! i else ''?'') [0..<nat n]"
    by blast
  have d: "d = bb84_return l" using assms bb84_protocol_run [OF run] by simp
  have nm: "\<forall>i < nat n.
      (basis_names (loc_alice_bases l) ! i = basis_names (loc_bob_bases l) ! i)
        = (loc_alice_bases l ! i = loc_bob_bases l ! i)"
  proof (intro allI impI)
    fix i assume i: "i < nat n"
    then have "loc_alice_bases l ! i < 2" "loc_bob_bases l ! i < 2"
      using l2 l3 b2 b3 by (simp_all add: all_set_conv_all_nth)
    then show "(basis_names (loc_alice_bases l) ! i = basis_names (loc_bob_bases l) ! i)
        = (loc_alice_bases l ! i = loc_bob_bases l ! i)"
      using i l2 l3 basis_name_eq [of "loc_alice_bases l ! i" "loc_bob_bases l ! i"]
      by (simp add: basis_names_def)
  qed
  have at: "\<forall>i < nat n.
          matched_bases (loc_loop l) ! i
            = (basis_names (loc_alice_bases l) ! i = basis_names (loc_bob_bases l) ! i)
        \<and> (matched_bases (loc_loop l) ! i \<longrightarrow>
             bob_polarizations (loc_loop l) ! i = loc_alice_polarizations l ! i)
        \<and> (\<not> matched_bases (loc_loop l) ! i \<longrightarrow> bob_polarizations (loc_loop l) ! i = ''?'')"
    using nm by (simp add: m p)
  show ?thesis
    unfolding d
    apply (rule exI [of _ "basis_names (loc_alice_bases l)"])
    apply (rule exI [of _ "basis_names (loc_bob_bases l)"])
    apply (rule exI [of _ "loc_alice_polarizations l"])
    apply (rule exI [of _ "bob_polarizations (loc_loop l)"])
    apply (rule exI [of _ "matched_bases (loc_loop l)"])
    apply (intro conjI)
    using l2 l3 lp at
    by (simp_all add: bb84_return_fields basis_names_def m p)
qed

text \<open>C7 on the worked example, where the bases differ at qubit 1 only.\<close>

theorem matched_basis_consistency_witness:
  "\<exists>abs bbs ap bp mb.
      field example_result ''alice_bases'' = Some (StrList abs)
    \<and> field example_result ''bob_bases'' = Some (StrList bbs)
    \<and> field example_result ''alice_polarizations'' = Some (StrList ap)
    \<and> field example_result ''bob_polarizations'' = Some (StrList bp)
    \<and> field example_result ''matched_bases'' = Some (BoolList mb)
    \<and> length abs = nat 4 \<and> length bbs = nat 4 \<and> length ap = nat 4
    \<and> length bp = nat 4 \<and> length mb = nat 4
    \<and> (\<forall>i < nat 4.
          mb ! i = (abs ! i = bbs ! i)
        \<and> (mb ! i \<longrightarrow> bp ! i = ap ! i)
        \<and> (\<not> mb ! i \<longrightarrow> bp ! i = ''?''))"
  by (rule matched_basis_consistency [OF worked_example_result [of example_mt]])

text \<open>
  C8. The dictionary \<^verbatim>\<open>polarization_symbols\<close> is defined exactly on the four pairs
  \<open>(bit, basis)\<close> with both components in \<open>{0, 1}\<close>, sends them to four different symbols,
  and is injective there. The comprehension of line 29 raises nothing on such pairs and
  gives each pair its symbol.
\<close>

theorem polarization_encoding:
  "dom polarization_symbols = {0, 1} \<times> {0, 1}
   \<and> dict_get polarization_symbols (0, 0) = Inr arrow_up
   \<and> dict_get polarization_symbols (0, 1) = Inr arrow_up_right
   \<and> dict_get polarization_symbols (1, 0) = Inr arrow_right
   \<and> dict_get polarization_symbols (1, 1) = Inr arrow_down_right
   \<and> card {arrow_up, arrow_up_right, arrow_right, arrow_down_right} = 4
   \<and> inj_on polarization_symbols ({0, 1} \<times> {0, 1})
   \<and> (\<forall>ps. set ps \<subseteq> {0, 1} \<times> {0, 1} \<longrightarrow> (\<exists>ss. derive_polarizations ps = Inr ss))
   \<and> (\<forall>ps ss. derive_polarizations ps = Inr ss \<longrightarrow>
         length ss = length ps
       \<and> (\<forall>i < length ps. dict_get polarization_symbols (ps ! i) = Inr (ss ! i)))"
proof -
  have d: "dom polarization_symbols = {0, 1} \<times> {0, 1}"
    by (auto simp: polarization_symbols_def split: if_splits)
  have c: "card {arrow_up, arrow_up_right, arrow_right, arrow_down_right} = 4"
    using symbols_distinct by simp
  have i: "inj_on polarization_symbols ({0, 1} \<times> {0, 1})"
    using symbols_distinct by (auto simp: inj_on_def polarization_symbols_def)
  have t: "\<forall>ps. set ps \<subseteq> {0, 1} \<times> {0, 1} \<longrightarrow> (\<exists>ss. derive_polarizations ps = Inr ss)"
  proof (intro allI impI)
    fix ps :: "(nat \<times> nat) list"
    assume "set ps \<subseteq> {0, 1} \<times> {0, 1}"
    then have "\<forall>p \<in> set ps. fst p < 2 \<and> snd p < 2" by auto
    then show "\<exists>ss. derive_polarizations ps = Inr ss"
      using derive_polarizations_ok [of ps] by blast
  qed
  have u: "\<forall>ps ss. derive_polarizations ps = Inr ss \<longrightarrow>
         length ss = length ps
       \<and> (\<forall>i < length ps. dict_get polarization_symbols (ps ! i) = Inr (ss ! i))"
    using derive_polarizations_nth by blast
  have e: "dict_get polarization_symbols (0, 0) = Inr arrow_up"
    "dict_get polarization_symbols (0, 1) = Inr arrow_up_right"
    "dict_get polarization_symbols (1, 0) = Inr arrow_right"
    "dict_get polarization_symbols (1, 1) = Inr arrow_down_right"
    by (simp_all add: dict_get_def polarization_symbols_def)
  from d e c i t u show ?thesis by (intro conjI)
qed

text \<open>C8 at two of the pairs, and on the pairs of the worked example.\<close>

theorem polarization_encoding_witness:
  "polarization_symbols (0, 1) \<noteq> polarization_symbols (1, 0)
   \<and> dict_get polarization_symbols (1, 1) = Inr arrow_down_right
   \<and> (\<exists>ss. derive_polarizations [(0, 0), (1, 1), (1, 0), (0, 1)] = Inr ss)"
proof -
  have "set [(0, 0), (1, 1), (1, 0), (0, 1)] \<subseteq> {0, 1} \<times> {0, 1 :: nat}" by simp
  then have "\<exists>ss. derive_polarizations [(0, 0), (1, 1), (1, 0), (0, 1)] = Inr ss"
    using polarization_encoding by blast
  moreover have "polarization_symbols (0, 1) \<noteq> polarization_symbols (1, 0)"
    using polarization_encoding by (auto simp: inj_on_def)
  moreover have "dict_get polarization_symbols (1, 1) = Inr arrow_down_right"
    using polarization_encoding by blast
  ultimately show ?thesis by blast
qed

text \<open>
  C9. For every positive \<open>n_qubits\<close> and any seed: with a seed that is absent or accepted
  \<^verbatim>\<open>e91_protocol\<close> returns; every result holds two basis sequences of length \<open>n_qubits\<close>,
  read from two disjoint stretches of the entropy stream of the generator, a
  \<^verbatim>\<open>correlation_rate\<close> equal to the fraction of indices where the two sequences agree, and
  \<^verbatim>\<open>eavesdropped\<close> equal to \<^verbatim>\<open>correlation_rate < 0.7\<close>.
\<close>

theorem e91_correlation:
  assumes "0 < n"
  shows "(seed_accepted seed \<longrightarrow> (\<exists>d. e91_protocol mt n seed g0 = Inr d))
    \<and> (\<forall>d. e91_protocol mt n seed g0 = Inr d \<longrightarrow>
         (\<exists>g a b cr.
            seed_generator mt seed g0 = Inr g
          \<and> field d ''alice_bases'' = Some (IntList a)
          \<and> field d ''bob_bases'' = Some (IntList b)
          \<and> field d ''correlation_rate'' = Some (Float cr)
          \<and> field d ''eavesdropped'' = Some (Bool (pf_lt cr (7 / 10)))
          \<and> a = map (\<lambda>i. entropy g (cursor g + i) mod 2) [0..<nat n]
          \<and> b = map (\<lambda>i. entropy g (cursor g + nat n + i) mod 2) [0..<nat n]
          \<and> length a = nat n \<and> length b = nat n
          \<and> cr = Fin (of_nat (length (filter (\<lambda>i. a ! i = b ! i) [0..<nat n]))
                       / of_nat (nat n))))"
proof (intro conjI allI impI)
  assume "seed_accepted seed"
  then show "\<exists>d. e91_protocol mt n seed g0 = Inr d"
    using assms e91_returns [of seed n mt g0] by simp
next
  fix d assume ret: "e91_protocol mt n seed g0 = Inr d"
  have acc: "seed_accepted seed" and n0: "0 \<le> n" using e91_returned [OF ret] by simp_all
  from acc obtain g where g: "seed_generator mt seed g0 = Inr g"
    using seed_generator_accepted by blast
  define a where "a = map (\<lambda>i. entropy g (cursor g + i) mod 2) [0..<nat n]"
  define b where "b = map (\<lambda>i. entropy g (cursor g + nat n + i) mod 2) [0..<nat n]"
  define cr where "cr = np_mean (map (\<lambda>i. if a ! i = b ! i then 1 else 0) [0..<nat n])"
  have "e91_protocol mt n seed g0 =
      Inr [(''alice_bases'', IntList a), (''bob_bases'', IntList b),
           (''correlation_rate'', Float cr), (''eavesdropped'', Bool (pf_lt cr (7 / 10)))]"
    using e91_run [OF g n0] by (simp add: Let_def a_def b_def cr_def)
  with ret have d: "d = [(''alice_bases'', IntList a), (''bob_bases'', IntList b),
           (''correlation_rate'', Float cr), (''eavesdropped'', Bool (pf_lt cr (7 / 10)))]"
    by simp
  have ne: "[0..<nat n] \<noteq> []" using assms by simp
  have "cr = Fin (of_nat (length (filter (\<lambda>i. a ! i = b ! i) [0..<nat n]))
                    / of_nat (length [0..<nat n]))"
    unfolding cr_def using ne by (rule np_mean_fraction)
  then have cr: "cr = Fin (of_nat (length (filter (\<lambda>i. a ! i = b ! i) [0..<nat n]))
                    / of_nat (nat n))"
    by simp
  have f: "field d ''alice_bases'' = Some (IntList a)"
    "field d ''bob_bases'' = Some (IntList b)"
    "field d ''correlation_rate'' = Some (Float cr)"
    "field d ''eavesdropped'' = Some (Bool (pf_lt cr (7 / 10)))"
    by (simp_all add: d field_def)
  have l: "length a = nat n" "length b = nat n" by (simp_all add: a_def b_def)
  show "\<exists>g a b cr.
            seed_generator mt seed g0 = Inr g
          \<and> field d ''alice_bases'' = Some (IntList a)
          \<and> field d ''bob_bases'' = Some (IntList b)
          \<and> field d ''correlation_rate'' = Some (Float cr)
          \<and> field d ''eavesdropped'' = Some (Bool (pf_lt cr (7 / 10)))
          \<and> a = map (\<lambda>i. entropy g (cursor g + i) mod 2) [0..<nat n]
          \<and> b = map (\<lambda>i. entropy g (cursor g + nat n + i) mod 2) [0..<nat n]
          \<and> length a = nat n \<and> length b = nat n
          \<and> cr = Fin (of_nat (length (filter (\<lambda>i. a ! i = b ! i) [0..<nat n]))
                       / of_nat (nat n))"
    using g f l cr a_def b_def by blast
qed

text \<open>C9 on the worked example: the sequences agree at 2 of 4 indices.\<close>

theorem e91_correlation_witness:
  "\<exists>a b cr.
      field example_result_e91 ''alice_bases'' = Some (IntList a)
    \<and> field example_result_e91 ''bob_bases'' = Some (IntList b)
    \<and> field example_result_e91 ''correlation_rate'' = Some (Float cr)
    \<and> field example_result_e91 ''eavesdropped'' = Some (Bool (pf_lt cr (7 / 10)))
    \<and> length a = 4 \<and> length b = 4
    \<and> cr = Fin (of_nat (length (filter (\<lambda>i. a ! i = b ! i) [0..<4])) / 4)"
proof -
  have n: "(0::int) < 4" by simp
  from e91_correlation [OF n, of None example_mt "tape_source example_tape"]
    worked_example_e91 [of example_mt]
  obtain a b cr where
    "field example_result_e91 ''alice_bases'' = Some (IntList a)"
    "field example_result_e91 ''bob_bases'' = Some (IntList b)"
    "field example_result_e91 ''correlation_rate'' = Some (Float cr)"
    "field example_result_e91 ''eavesdropped'' = Some (Bool (pf_lt cr (7 / 10)))"
    "length a = nat 4" "length b = nat 4"
    "cr = Fin (of_nat (length (filter (\<lambda>i. a ! i = b ! i) [0..<nat 4])) / of_nat (nat 4))"
    by auto
  then show ?thesis by (intro exI [of _ a] exI [of _ b] exI [of _ cr]) simp
qed

text \<open>
  C10. \<^verbatim>\<open>bb84_protocol\<close> computes one Eve-intervention flag per qubit, and no key of the
  dictionary it returns holds them: the keys are exactly the ten of lines 69-78, the key
  \<^verbatim>\<open>eve_interventions\<close> is absent, and the dictionary is the same whatever the flags are.
\<close>

theorem eve_interventions_not_returned:
  assumes "bb84_protocol mt n seed g0 = Inr d"
  shows "\<exists>l.
      bb84_simulate mt n seed g0 = Inr l
    \<and> length (eve_interventions (loc_loop l)) = nat n
    \<and> map fst d =
        [''alice_bits'', ''bob_bits'', ''alice_bases'', ''bob_bases'',
         ''alice_polarizations'', ''bob_polarizations'', ''matched_bases'', ''shared_key'',
         ''error_rate'', ''eavesdropping_detected'']
    \<and> field d ''eve_interventions'' = None
    \<and> (\<forall>ev. bb84_return (l\<lparr>loc_loop := (loc_loop l)\<lparr>eve_interventions := ev\<rparr>\<rparr>) = d)"
proof -
  have acc: "seed_accepted seed" and n0: "0 \<le> n" using bb84_returned [OF assms] by simp_all
  from bb84_run_sequences [OF acc n0, of mt g0] obtain l where
    run: "bb84_simulate mt n seed g0 = Inr l" and
    le: "length (loc_eve_guesses l) = nat n" and
    e: "eve_interventions (loc_loop l) = map (\<lambda>e. e \<noteq> None) (loc_eve_guesses l)"
    by blast
  have d: "d = bb84_return l" using assms bb84_protocol_run [OF run] by simp
  have "length (eve_interventions (loc_loop l)) = nat n" using le e by simp
  then show ?thesis
    unfolding d
    apply (intro exI [of _ l])
    using run by (simp add: bb84_return_def field_def)
qed

text \<open>C10 on the worked example.\<close>

theorem eve_interventions_not_returned_witness:
  "\<exists>l.
      bb84_simulate example_mt 4 None (tape_source example_tape) = Inr l
    \<and> length (eve_interventions (loc_loop l)) = nat 4
    \<and> map fst example_result =
        [''alice_bits'', ''bob_bits'', ''alice_bases'', ''bob_bases'',
         ''alice_polarizations'', ''bob_polarizations'', ''matched_bases'', ''shared_key'',
         ''error_rate'', ''eavesdropping_detected'']
    \<and> field example_result ''eve_interventions'' = None
    \<and> (\<forall>ev. bb84_return (l\<lparr>loc_loop := (loc_loop l)\<lparr>eve_interventions := ev\<rparr>\<rparr>)
           = example_result)"
  by (rule eve_interventions_not_returned [OF worked_example_result])

end
